theory Spec2Isabelle
  imports Complex_Main "HOL-Library.Product_Lexorder" "HOL-Library.AList" "HOL-Library.Multiset"
begin

section \<open>Values, failures and tables\<close>

text \<open>
  The embedding follows \<^verbatim>\<open>src/src/recommenders.py\<close> (class \<^verbatim>\<open>MainRecommender\<close>); the
  evaluator of the older \<^verbatim>\<open>src/recommenders.py\<close> is embedded next to the newer one.
  A Python method whose name starts with an underscore is written with the prefix
  \<open>priv_\<close>. Python integers are \<open>int\<close>; floating-point columns (\<^verbatim>\<open>sales_value\<close>,
  \<^verbatim>\<open>proba_item_purchase\<close>, the matrix cells and the scores of the fitted models) are
  rationals, so only their order and their exact arithmetic are modelled. A raised
  exception is the value \<open>Inl e\<close>.
\<close>

datatype py_error =
  KeyError | IndexError | ValueError | AssertionError | AttributeError | TypeError

text \<open>A row of the interaction table \<^verbatim>\<open>data\<close> (and of the held-out table \<^verbatim>\<open>df_result\<close>).\<close>

record interaction =
  user_id :: int
  item_id :: int
  quantity :: int
  sales_value :: rat

text \<open>
  A fitted model of the \<^verbatim>\<open>implicit\<close> library, as the class uses it: three queries, each a
  list of (matrix index, score) pairs, or an exception. \<open>recommend\<close> takes \<^verbatim>\<open>userid\<close>,
  \<^verbatim>\<open>user_items\<close>, \<^verbatim>\<open>N\<close> and \<^verbatim>\<open>filter_items\<close>; the two similarity queries take an index
  and \<^verbatim>\<open>N\<close>.
\<close>

record model_handle =
  recommend :: "int \<Rightarrow> rat list list \<Rightarrow> int \<Rightarrow> int list \<Rightarrow> py_error + (int \<times> rat) list"
  similar_items :: "int \<Rightarrow> int \<Rightarrow> py_error + (int \<times> rat) list"
  similar_users :: "int \<Rightarrow> int \<Rightarrow> py_error + (int \<times> rat) list"

text \<open>
  The attributes of a \<^verbatim>\<open>MainRecommender\<close>. A Python dict is an association list in
  insertion order. \<open>top_purchases\<close> holds the rows (user_id, item_id, count).
  \<open>model\<close> is \<open>None\<close> when \<^verbatim>\<open>fit\<close> was given a model type it does not know.
\<close>

record MainRecommender =
  top_purchases :: "(int \<times> int \<times> nat) list"
  overall_top_purchases :: "int list"
  user_item_matrix :: "rat list list"
  id_to_itemid :: "(int \<times> int) list"
  id_to_userid :: "(int \<times> int) list"
  itemid_to_id :: "(int \<times> int) list"
  userid_to_id :: "(int \<times> int) list"
  model :: "model_handle option"
  own_recommender :: "model_handle"

section \<open>Python and pandas primitives\<close>

text \<open>\<^verbatim>\<open>d[k]\<close> on a dict raises \<^verbatim>\<open>KeyError\<close> for a missing key.\<close>

definition getitem :: "('k \<times> 'v) list \<Rightarrow> 'k \<Rightarrow> py_error + 'v" where
  "getitem d k = (case map_of d k of None \<Rightarrow> Inl KeyError | Some v \<Rightarrow> Inr v)"

text \<open>
  A list comprehension or \<^verbatim>\<open>Series.apply\<close> over a pure function: the elements are
  visited in order and the first exception ends the traversal.
\<close>

fun collect :: "('a \<Rightarrow> py_error + 'b) \<Rightarrow> 'a list \<Rightarrow> py_error + 'b list" where
  "collect f [] = Inr []"
| "collect f (x # xs) =
     (case f x of
        Inl e \<Rightarrow> Inl e
      | Inr y \<Rightarrow> (case collect f xs of Inl e \<Rightarrow> Inl e | Inr ys \<Rightarrow> Inr (y # ys)))"

text \<open>\<^verbatim>\<open>DataFrame.head(n)\<close>: the first \<open>n\<close> rows, or all but the last \<open>-n\<close> when \<open>n < 0\<close>.\<close>

definition head :: "int \<Rightarrow> 'a list \<Rightarrow> 'a list" where
  "head n xs = (if 0 \<le> n then take (nat n) xs else take (length xs - nat (- n)) xs)"

text \<open>\<^verbatim>\<open>Series.unique()\<close>: the distinct values in order of first appearance.\<close>

definition unique :: "'a list \<Rightarrow> 'a list" where
  "unique xs = rev (remdups (rev xs))"

text \<open>
  \<^verbatim>\<open>sort_values(col, ascending=False)\<close>: descending by the column. The default sort kind
  (quicksort) fixes no order among rows with equal keys; what it does with them is the
  parameter \<open>kind\<close>, which from the key column gives every position a priority among
  its ties (positions of equal priority keep their order). Every \<open>kind\<close> gives a
  descending arrangement of the rows; the priorities can put the rows of one key in any
  order, and what is proved below holds for every \<open>kind\<close>.
\<close>

definition sort_values_desc ::
  "('b list \<Rightarrow> nat \<Rightarrow> int) \<Rightarrow> ('a \<Rightarrow> 'b::{linorder, uminus}) \<Rightarrow> 'a list \<Rightarrow> 'a list" where
  "sort_values_desc kind col rows =
     map snd (sort_key (\<lambda>(i, r). (- col r, kind (map col rows) i)) (zip [0..<length rows] rows))"

section \<open>Index maps and the popularity fallback\<close>

text \<open>
  \<^verbatim>\<open>_update_dict\<close>: \<^verbatim>\<open>max(list(self.userid_to_id.values()))\<close> raises \<^verbatim>\<open>ValueError\<close> on an
  empty dict; both dicts are updated in place.
\<close>

definition priv_update_dict :: "MainRecommender \<Rightarrow> int \<Rightarrow> (py_error + unit) \<times> MainRecommender" where
  "priv_update_dict s uid =
     (if uid \<notin> set (map fst (userid_to_id s)) then
        (case map snd (userid_to_id s) of
           [] \<Rightarrow> (Inl ValueError, s)
         | v # vs \<Rightarrow>
             (let max_id = fold max vs v + 1 in
              (Inr (), s\<lparr>userid_to_id := AList.update uid max_id (userid_to_id s),
                        id_to_userid := AList.update max_id uid (id_to_userid s)\<rparr>)))
      else (Inr (), s))"

text \<open>
  \<^verbatim>\<open>_extend_with_top_popular\<close>. The argument list is always a list the caller has just
  built, so extending it in place changes no attribute.
\<close>

definition priv_extend_with_top_popular :: "MainRecommender \<Rightarrow> int list \<Rightarrow> int \<Rightarrow> int list" where
  "priv_extend_with_top_popular s recommendations N =
     (if int (length recommendations) < N
      then take (nat N) (recommendations @ take (nat N) (overall_top_purchases s))
      else recommendations)"

section \<open>The four strategies\<close>

text \<open>
  \<^verbatim>\<open>_get_similar_item\<close>. Python evaluates \<^verbatim>\<open>self.model.similar_items\<close> before its argument
  \<^verbatim>\<open>self.itemid_to_id[item_id]\<close>; \<^verbatim>\<open>recs[1]\<close> raises \<^verbatim>\<open>IndexError\<close> on fewer than two results.
\<close>

definition priv_get_similar_item :: "MainRecommender \<Rightarrow> int \<Rightarrow> py_error + int" where
  "priv_get_similar_item s item =
     (case model s of
        None \<Rightarrow> Inl AttributeError
      | Some m \<Rightarrow>
          (case getitem (itemid_to_id s) item of
             Inl e \<Rightarrow> Inl e
           | Inr idx \<Rightarrow>
               (case similar_items m idx 2 of
                  Inl e \<Rightarrow> Inl e
                | Inr recs \<Rightarrow>
                    (if length recs < 2 then Inl IndexError
                     else getitem (id_to_itemid s) (fst (recs ! 1))))))"

text \<open>
  The part of \<^verbatim>\<open>_get_recommendations\<close> after \<^verbatim>\<open>_update_dict\<close>, in Python's evaluation
  order: the method of the model, \<^verbatim>\<open>self.userid_to_id[user]\<close>, \<^verbatim>\<open>self.itemid_to_id[999999]\<close>,
  the call, the comprehension over \<^verbatim>\<open>self.id_to_itemid\<close>, the fallback and the assertion.
\<close>

definition recommend_and_check ::
  "MainRecommender \<Rightarrow> int \<Rightarrow> model_handle option \<Rightarrow> int \<Rightarrow> py_error + int list" where
  "recommend_and_check s user mdl N =
     (case mdl of
        None \<Rightarrow> Inl AttributeError
      | Some m \<Rightarrow>
          (case getitem (userid_to_id s) user of
             Inl e \<Rightarrow> Inl e
           | Inr uidx \<Rightarrow>
               (case getitem (itemid_to_id s) 999999 of
                  Inl e \<Rightarrow> Inl e
                | Inr pidx \<Rightarrow>
                    (case recommend m uidx (user_item_matrix s) N [pidx] of
                       Inl e \<Rightarrow> Inl e
                     | Inr recs \<Rightarrow>
                         (case collect (\<lambda>rec. getitem (id_to_itemid s) (fst rec)) recs of
                            Inl e \<Rightarrow> Inl e
                          | Inr res \<Rightarrow>
                              (let res' = priv_extend_with_top_popular s res N in
                               if int (length res') = N then Inr res'
                               else Inl AssertionError))))))"

definition priv_get_recommendations ::
  "MainRecommender \<Rightarrow> int \<Rightarrow> model_handle option \<Rightarrow> int
     \<Rightarrow> (py_error + int list) \<times> MainRecommender" where
  "priv_get_recommendations s user mdl N =
     (case priv_update_dict s user of
        (Inl e, s') \<Rightarrow> (Inl e, s')
      | (Inr _, s') \<Rightarrow> (recommend_and_check s' user mdl N, s'))"

definition get_recommendations ::
  "MainRecommender \<Rightarrow> int \<Rightarrow> int \<Rightarrow> (py_error + int list) \<times> MainRecommender" where
  "get_recommendations s user N =
     (case priv_update_dict s user of
        (Inl e, s') \<Rightarrow> (Inl e, s')
      | (Inr _, s') \<Rightarrow> priv_get_recommendations s' user (model s') N)"

definition get_own_recommendations ::
  "MainRecommender \<Rightarrow> int \<Rightarrow> int \<Rightarrow> (py_error + int list) \<times> MainRecommender" where
  "get_own_recommendations s user N =
     (case priv_update_dict s user of
        (Inl e, s') \<Rightarrow> (Inl e, s')
      | (Inr _, s') \<Rightarrow> priv_get_recommendations s' user (Some (own_recommender s')) N)"

definition get_similar_items_recommendation ::
  "MainRecommender \<Rightarrow> int \<Rightarrow> int \<Rightarrow> (py_error + int list) \<times> MainRecommender" where
  "get_similar_items_recommendation s uid N =
     (let top_users_purchases = head N (filter (\<lambda>(u, i, c). u = uid) (top_purchases s)) in
      case collect (priv_get_similar_item s) (map (\<lambda>(u, i, c). i) top_users_purchases) of
        Inl e \<Rightarrow> (Inl e, s)
      | Inr res \<Rightarrow>
          (let res' = priv_extend_with_top_popular s res N in
           if int (length res') = N then (Inr res', s) else (Inl AssertionError, s)))"

text \<open>The loop of \<^verbatim>\<open>get_similar_users_recommendation\<close> over the similar users.\<close>

fun extend_from_similar_users ::
  "MainRecommender \<Rightarrow> int list \<Rightarrow> int list \<Rightarrow> (py_error + int list) \<times> MainRecommender" where
  "extend_from_similar_users s [] res = (Inr res, s)"
| "extend_from_similar_users s (u # us) res =
     (case get_own_recommendations s u 1 of
        (Inl e, s') \<Rightarrow> (Inl e, s')
      | (Inr r, s') \<Rightarrow> extend_from_similar_users s' us (res @ r))"

definition get_similar_users_recommendation ::
  "MainRecommender \<Rightarrow> int \<Rightarrow> int \<Rightarrow> (py_error + int list) \<times> MainRecommender" where
  "get_similar_users_recommendation s uid N =
     (case model s of
        None \<Rightarrow> (Inl AttributeError, s)
      | Some m \<Rightarrow>
          (case getitem (userid_to_id s) uid of
             Inl e \<Rightarrow> (Inl e, s)
           | Inr uidx \<Rightarrow>
               (case similar_users m uidx (N + 1) of
                  Inl e \<Rightarrow> (Inl e, s)
                | Inr recs \<Rightarrow>
                    (case collect (\<lambda>rec. getitem (id_to_userid s) (fst rec)) recs of
                       Inl e \<Rightarrow> (Inl e, s)
                     | Inr similar \<Rightarrow>
                         (case extend_from_similar_users s (drop 1 similar) [] of
                            (Inl e, s') \<Rightarrow> (Inl e, s')
                          | (Inr res, s') \<Rightarrow>
                              (let res' = priv_extend_with_top_popular s' res N in
                               if int (length res') = N then (Inr res', s')
                               else (Inl AssertionError, s')))))))"

section \<open>Evaluation and re-ranking\<close>

text \<open>
  \<^verbatim>\<open>recall_at_k\<close> and \<^verbatim>\<open>precision_at_k\<close> come from the module \<^verbatim>\<open>metrics\<close>, which is not part
  of the sources at hand; the evaluator takes them as parameters
  (recommended list, actual list, \<^verbatim>\<open>k\<close>).
\<close>

record metrics =
  recall_at_k :: "int list \<Rightarrow> int list \<Rightarrow> int \<Rightarrow> py_error + rat"
  precision_at_k :: "int list \<Rightarrow> int list \<Rightarrow> int \<Rightarrow> py_error + rat"

text \<open>
  What an evaluator returns: a float, the mean over an empty frame, \<^verbatim>\<open>None\<close>, or a
  string.
\<close>

datatype py_value = Float rat | EmptyFrameMean | PyNone | PyStr string

text \<open>A row of the score table \<^verbatim>\<open>df_predict\<close>.\<close>

record prediction =
  pred_user_id :: int
  pred_item_id :: int
  proba_item_purchase :: rat

text \<open>
  \<^verbatim>\<open>_get_result\<close>: one row (user_id, actual) per user, users ascending, \<open>actual\<close> the
  distinct item ids of the user.
\<close>

definition priv_get_result :: "interaction list \<Rightarrow> (int \<times> int list) list" where
  "priv_get_result df_result =
     map (\<lambda>u. (u, unique (map item_id (filter (\<lambda>r. user_id r = u) df_result))))
       (sort (remdups (map user_id df_result)))"

text \<open>
  \<^verbatim>\<open>result_eval[target_col_name]\<close>: the frame has the columns \<^verbatim>\<open>user_id\<close> and \<^verbatim>\<open>actual\<close>
  when the column is read; a cell of \<^verbatim>\<open>actual\<close> is an array.
\<close>

datatype cell = UserCell int | ArrayCell "int list"

definition target_column :: "(int \<times> int list) list \<Rightarrow> string \<Rightarrow> py_error + cell list" where
  "target_column result_eval target_col_name =
     (if target_col_name = ''user_id'' then Inr (map (\<lambda>(u, actual). UserCell u) result_eval)
      else if target_col_name = ''actual'' then Inr (map (\<lambda>(u, actual). ArrayCell actual) result_eval)
      else Inl KeyError)"

text \<open>
  A strategy applied to a cell. On an array, \<^verbatim>\<open>user_id not in self.userid_to_id.keys()\<close> and
  \<^verbatim>\<open>self.userid_to_id[user_id]\<close> raise \<^verbatim>\<open>TypeError\<close> (an array is unhashable), and
  \<^verbatim>\<open>self.top_purchases['user_id'] == user_id\<close> compares position by position, raising
  \<^verbatim>\<open>ValueError\<close> when the lengths differ.
\<close>

definition own_on_cell :: "MainRecommender \<Rightarrow> cell \<Rightarrow> int \<Rightarrow> (py_error + int list) \<times> MainRecommender" where
  "own_on_cell s x N =
     (case x of UserCell u \<Rightarrow> get_own_recommendations s u N | ArrayCell a \<Rightarrow> (Inl TypeError, s))"

definition rec_on_cell :: "MainRecommender \<Rightarrow> cell \<Rightarrow> int \<Rightarrow> (py_error + int list) \<times> MainRecommender" where
  "rec_on_cell s x N =
     (case x of UserCell u \<Rightarrow> get_recommendations s u N | ArrayCell a \<Rightarrow> (Inl TypeError, s))"

definition itm_on_cell :: "MainRecommender \<Rightarrow> cell \<Rightarrow> int \<Rightarrow> (py_error + int list) \<times> MainRecommender" where
  "itm_on_cell s x N =
     (case x of
        UserCell u \<Rightarrow> get_similar_items_recommendation s u N
      | ArrayCell a \<Rightarrow>
          (if length a \<noteq> length (top_purchases s) then (Inl ValueError, s)
           else
             (let top_users_purchases =
                    head N (map fst (filter (\<lambda>((u, i, c), v). u = v) (zip (top_purchases s) a))) in
              case collect (priv_get_similar_item s) (map (\<lambda>(u, i, c). i) top_users_purchases) of
                Inl e \<Rightarrow> (Inl e, s)
              | Inr res \<Rightarrow>
                  (let res' = priv_extend_with_top_popular s res N in
                   if int (length res') = N then (Inr res', s) else (Inl AssertionError, s)))))"

definition usr_on_cell :: "MainRecommender \<Rightarrow> cell \<Rightarrow> int \<Rightarrow> (py_error + int list) \<times> MainRecommender" where
  "usr_on_cell s x N =
     (case x of
        UserCell u \<Rightarrow> get_similar_users_recommendation s u N
      | ArrayCell a \<Rightarrow> (case model s of None \<Rightarrow> (Inl AttributeError, s) | Some m \<Rightarrow> (Inl TypeError, s)))"

text \<open>
  \<^verbatim>\<open>Series.apply\<close> of a strategy: the engine is threaded through the calls, and the first
  exception ends the traversal with the engine as it is then.
\<close>

fun apply_strategy ::
  "(MainRecommender \<Rightarrow> cell \<Rightarrow> int \<Rightarrow> (py_error + int list) \<times> MainRecommender)
     \<Rightarrow> MainRecommender \<Rightarrow> cell list \<Rightarrow> int \<Rightarrow> (py_error + int list list) \<times> MainRecommender" where
  "apply_strategy f s [] N = (Inr [], s)"
| "apply_strategy f s (x # xs) N =
     (case f s x N of
        (Inl e, s') \<Rightarrow> (Inl e, s')
      | (Inr r, s') \<Rightarrow>
          (case apply_strategy f s' xs N of
             (Inl e, s'') \<Rightarrow> (Inl e, s'')
           | (Inr rs, s'') \<Rightarrow> (Inr (r # rs), s'')))"

text \<open>
  \<^verbatim>\<open>_get_recommend_eval\<close>: the frame with the result column (rows user_id, actual,
  result), or \<^verbatim>\<open>None\<close> for a strategy tag it does not know.
\<close>

definition fill_result_column ::
  "(MainRecommender \<Rightarrow> cell \<Rightarrow> int \<Rightarrow> (py_error + int list) \<times> MainRecommender)
     \<Rightarrow> MainRecommender \<Rightarrow> (int \<times> int list) list \<Rightarrow> string \<Rightarrow> int
     \<Rightarrow> (py_error + (int \<times> int list \<times> int list) list) \<times> MainRecommender" where
  "fill_result_column f s result_eval target_col_name N_PREDICT =
     (case target_column result_eval target_col_name of
        Inl e \<Rightarrow> (Inl e, s)
      | Inr xs \<Rightarrow>
          (case apply_strategy f s xs N_PREDICT of
             (Inl e, s') \<Rightarrow> (Inl e, s')
           | (Inr rs, s') \<Rightarrow> (Inr (map (\<lambda>((u, actual), r). (u, actual, r)) (zip result_eval rs)), s')))"

definition priv_get_recommend_eval ::
  "MainRecommender \<Rightarrow> (int \<times> int list) list \<Rightarrow> string \<Rightarrow> string \<Rightarrow> int
     \<Rightarrow> (py_error + (int \<times> int list \<times> int list) list option) \<times> MainRecommender" where
  "priv_get_recommend_eval s result_eval target_col_name recommend_model_type N_PREDICT =
     (let filled = (\<lambda>f. case fill_result_column f s result_eval target_col_name N_PREDICT of
                          (Inl e, s') \<Rightarrow> (Inl e, s')
                        | (Inr rows, s') \<Rightarrow> (Inr (Some rows), s')) in
      if recommend_model_type = ''own'' then filled own_on_cell
      else if recommend_model_type = ''rec'' then filled rec_on_cell
      else if recommend_model_type = ''itm'' then filled itm_on_cell
      else if recommend_model_type = ''usr'' then filled usr_on_cell
      else (Inr None, s))"

text \<open>\<^verbatim>\<open>frame.apply(metric, axis=1).mean()\<close>.\<close>

definition row_mean :: "('a \<Rightarrow> py_error + rat) \<Rightarrow> 'a list \<Rightarrow> py_error + py_value" where
  "row_mean f rows =
     (case collect f rows of
        Inl e \<Rightarrow> Inl e
      | Inr vs \<Rightarrow> Inr (if vs = [] then EmptyFrameMean else Float (sum_list vs / of_nat (length vs))))"

text \<open>
  \<^verbatim>\<open>evalMetrics\<close> of \<^verbatim>\<open>src/src/recommenders.py\<close>. After an unknown strategy tag
  \<^verbatim>\<open>result_eval\<close> is \<^verbatim>\<open>None\<close>, and \<^verbatim>\<open>result_eval.apply\<close> raises \<^verbatim>\<open>AttributeError\<close>; with a
  metric type that is neither tag the method falls off its end and returns \<^verbatim>\<open>None\<close>.
\<close>

definition evalMetrics ::
  "metrics \<Rightarrow> MainRecommender \<Rightarrow> string \<Rightarrow> interaction list \<Rightarrow> string \<Rightarrow> string \<Rightarrow> int
     \<Rightarrow> (py_error + py_value) \<times> MainRecommender" where
  "evalMetrics mt s metric_type df_result target_col_name recommend_model_type N_PREDICT =
     (case priv_get_recommend_eval s (priv_get_result df_result) target_col_name
             recommend_model_type N_PREDICT of
        (Inl e, s') \<Rightarrow> (Inl e, s')
      | (Inr result_eval, s') \<Rightarrow>
          (if metric_type = ''recall'' then
             (case result_eval of
                None \<Rightarrow> (Inl AttributeError, s')
              | Some rows \<Rightarrow>
                  (row_mean (\<lambda>(u, actual, r). recall_at_k mt r actual N_PREDICT) rows, s'))
           else if metric_type = ''precision'' then
             (case result_eval of
                None \<Rightarrow> (Inl AttributeError, s')
              | Some rows \<Rightarrow>
                  (row_mean (\<lambda>(u, actual, r). precision_at_k mt r actual N_PREDICT) rows, s'))
           else (Inr PyNone, s')))"

text \<open>
  \<^verbatim>\<open>evalMetrics\<close> of the older \<^verbatim>\<open>src/recommenders.py\<close>: the strategy tags are tested in the
  method itself, and both \<^verbatim>\<open>else\<close> branches return a message.
\<close>

definition evalMetrics_older ::
  "metrics \<Rightarrow> MainRecommender \<Rightarrow> string \<Rightarrow> interaction list \<Rightarrow> string \<Rightarrow> string \<Rightarrow> int
     \<Rightarrow> (py_error + py_value) \<times> MainRecommender" where
  "evalMetrics_older mt s metric_type df_result target_col_name recommend_model_type N_PREDICT =
     (let result_eval_matcher = priv_get_result df_result;
          scored = (\<lambda>f.
            case fill_result_column f s result_eval_matcher target_col_name N_PREDICT of
              (Inl e, s') \<Rightarrow> (Inl e, s')
            | (Inr rows, s') \<Rightarrow>
                (if metric_type = ''recall'' then
                   (row_mean (\<lambda>(u, actual, r). recall_at_k mt r actual N_PREDICT) rows, s')
                 else if metric_type = ''precision'' then
                   (row_mean (\<lambda>(u, actual, r). precision_at_k mt r actual N_PREDICT) rows, s')
                 else (Inr (PyStr ''recommend_model_type must not be empty!''), s'))) in
      if recommend_model_type = ''own'' then scored own_on_cell
      else if recommend_model_type = ''rec'' then scored rec_on_cell
      else if recommend_model_type = ''itm'' then scored itm_on_cell
      else if recommend_model_type = ''usr'' then scored usr_on_cell
      else (Inr (PyStr ''recommend_model_type must not be empty!''), s))"

text \<open>
  \<^verbatim>\<open>df_predict[target_col_name]\<close>: the score table has the columns \<^verbatim>\<open>user_id\<close>, \<^verbatim>\<open>item_id\<close>
  and \<^verbatim>\<open>proba_item_purchase\<close>.
\<close>

definition predict_column :: "string \<Rightarrow> py_error + (prediction \<Rightarrow> rat)" where
  "predict_column target_col_name =
     (if target_col_name = ''user_id'' then Inr (\<lambda>r. of_int (pred_user_id r))
      else if target_col_name = ''item_id'' then Inr (\<lambda>r. of_int (pred_item_id r))
      else if target_col_name = ''proba_item_purchase'' then Inr proba_item_purchase
      else Inl KeyError)"

text \<open>\<^verbatim>\<open>_rerank\<close>, for a scalar \<^verbatim>\<open>user_id\<close>.\<close>

definition priv_rerank ::
  "(rat list \<Rightarrow> nat \<Rightarrow> int) \<Rightarrow> int \<Rightarrow> prediction list \<Rightarrow> string \<Rightarrow> py_error + int list" where
  "priv_rerank kind uid df_predict target_col_name =
     (case predict_column target_col_name of
        Inl e \<Rightarrow> Inl e
      | Inr col \<Rightarrow>
          Inr (map pred_item_id
                (head 5 (sort_values_desc kind proba_item_purchase
                           (filter (\<lambda>r. col r = of_int uid) df_predict)))))"

text \<open>
  \<^verbatim>\<open>_rerank\<close> on a cell of the target column. An array arrives only from the column
  \<^verbatim>\<open>actual\<close>, which the score table does not have: \<^verbatim>\<open>df_predict['actual']\<close> raises first.
\<close>

definition rerank_cell ::
  "(rat list \<Rightarrow> nat \<Rightarrow> int) \<Rightarrow> cell \<Rightarrow> prediction list \<Rightarrow> string \<Rightarrow> py_error + int list" where
  "rerank_cell kind x df_predict target_col_name =
     (case x of
        UserCell u \<Rightarrow> priv_rerank kind u df_predict target_col_name
      | ArrayCell a \<Rightarrow>
          (case predict_column target_col_name of Inl e \<Rightarrow> Inl e | Inr col \<Rightarrow> Inl ValueError))"

text \<open>
  \<^verbatim>\<open>reranked_metrics\<close>. With \<^verbatim>\<open>result_eval = None\<close> the subscript \<^verbatim>\<open>result_eval[target_col_name]\<close>
  raises \<^verbatim>\<open>TypeError\<close>. The second component is the frame
  \<^verbatim>\<open>result_eval[['user_id', reranked_col_name]]\<close> when \<^verbatim>\<open>return_reranked_data\<close> is true.
\<close>

definition reranked_metrics ::
  "(rat list \<Rightarrow> nat \<Rightarrow> int) \<Rightarrow> metrics \<Rightarrow> MainRecommender \<Rightarrow> string \<Rightarrow> interaction list \<Rightarrow> prediction list \<Rightarrow> string
     \<Rightarrow> string \<Rightarrow> int \<Rightarrow> bool
     \<Rightarrow> (py_error + py_value \<times> (int \<times> int list) list option) \<times> MainRecommender" where
  "reranked_metrics kind mt s metric_type df_result df_predict target_col_name
       recommend_model_type N_PREDICT return_reranked_data =
     (case priv_get_recommend_eval s (priv_get_result df_result) target_col_name
             recommend_model_type N_PREDICT of
        (Inl e, s') \<Rightarrow> (Inl e, s')
      | (Inr None, s') \<Rightarrow> (Inl TypeError, s')
      | (Inr (Some rows), s') \<Rightarrow>
          (case target_column (map (\<lambda>(u, actual, r). (u, actual)) rows) target_col_name of
             Inl e \<Rightarrow> (Inl e, s')
           | Inr xs \<Rightarrow>
               (case collect (\<lambda>x. rerank_cell kind x df_predict target_col_name) xs of
                  Inl e \<Rightarrow> (Inl e, s')
                | Inr reranked \<Rightarrow>
                    (let result_eval = map (\<lambda>((u, actual, r), rr). (u, actual, rr)) (zip rows reranked);
                         metric_result =
                           (if metric_type = ''recall'' then
                              row_mean (\<lambda>(u, actual, rr). recall_at_k mt rr actual N_PREDICT) result_eval
                            else if metric_type = ''precision'' then
                              row_mean (\<lambda>(u, actual, rr). precision_at_k mt rr actual N_PREDICT) result_eval
                            else Inr PyNone) in
                     case metric_result of
                       Inl e \<Rightarrow> (Inl e, s')
                     | Inr m \<Rightarrow>
                         (if return_reranked_data
                          then (Inr (m, Some (map (\<lambda>(u, actual, rr). (u, rr)) result_eval)), s')
                          else (Inr (m, None), s'))))))"

section \<open>Construction\<close>

text \<open>
  A pivot table: the row labels (user ids), the column labels (item ids) and the cells,
  row by row.
\<close>

record data_frame =
  frame_index :: "int list"
  frame_columns :: "int list"
  frame_values :: "rat list list"

text \<open>
  \<^verbatim>\<open>pd.pivot_table(data, index='user_id', columns='item_id', values=..., aggfunc=...,
  fill_value=0)\<close>: labels ascending and distinct, a cell aggregates the records of its
  pair, and a pair with no record is filled with 0.
\<close>

definition pivot_table :: "interaction list \<Rightarrow> (interaction list \<Rightarrow> rat) \<Rightarrow> data_frame" where
  "pivot_table data aggfunc =
     (let userids = sort (remdups (map user_id data));
          itemids = sort (remdups (map item_id data)) in
      \<lparr>frame_index = userids, frame_columns = itemids,
       frame_values =
         map (\<lambda>u. map (\<lambda>i.
                (let rows = filter (\<lambda>r. user_id r = u \<and> item_id r = i) data in
                 if rows = [] then 0 else aggfunc rows)) itemids) userids\<rparr>)"

text \<open>The aggregations: \<^verbatim>\<open>'count'\<close>, and \<^verbatim>\<open>'mean'\<close>, which pandas uses when none is given.\<close>

definition agg_count :: "interaction list \<Rightarrow> rat" where
  "agg_count rows = of_nat (length rows)"

definition agg_mean :: "(interaction \<Rightarrow> rat) \<Rightarrow> interaction list \<Rightarrow> rat" where
  "agg_mean col rows = sum_list (map col rows) / of_nat (length rows)"

text \<open>
  \<^verbatim>\<open>_prepare_matrix\<close>. The branches for \<^verbatim>\<open>'quantity'\<close> and \<^verbatim>\<open>'purchase_sum'\<close> pass no
  \<^verbatim>\<open>aggfunc\<close>. For any other value mode \<^verbatim>\<open>user_item_matrix\<close> stays \<^verbatim>\<open>None\<close> and \<^verbatim>\<open>.astype\<close>
  raises \<^verbatim>\<open>AttributeError\<close>.
\<close>

definition priv_prepare_matrix :: "interaction list \<Rightarrow> string \<Rightarrow> py_error + data_frame" where
  "priv_prepare_matrix data user_item_matrix_values =
     (if user_item_matrix_values = ''binary'' then Inr (pivot_table data agg_count)
      else if user_item_matrix_values = ''quantity''
        then Inr (pivot_table data (agg_mean (\<lambda>r. of_int (quantity r))))
      else if user_item_matrix_values = ''purchase_sum''
        then Inr (pivot_table data (agg_mean sales_value))
      else Inl AttributeError)"

text \<open>\<^verbatim>\<open>frame.loc[u, i]\<close>, to read a cell by its labels.\<close>

definition loc :: "data_frame \<Rightarrow> int \<Rightarrow> int \<Rightarrow> rat option" where
  "loc frame u i =
     (case map_of (zip (frame_index frame) (frame_values frame)) u of
        None \<Rightarrow> None
      | Some row \<Rightarrow> map_of (zip (frame_columns frame) row) i)"

text \<open>\<^verbatim>\<open>_prepare_dicts\<close>: (id_to_itemid, id_to_userid, itemid_to_id, userid_to_id).\<close>

definition priv_prepare_dicts ::
  "data_frame \<Rightarrow> (int \<times> int) list \<times> (int \<times> int) list \<times> (int \<times> int) list \<times> (int \<times> int) list" where
  "priv_prepare_dicts frame =
     (let userids = frame_index frame;
          itemids = frame_columns frame;
          matrix_userids = map int [0..<length userids];
          matrix_itemids = map int [0..<length itemids] in
      (zip matrix_itemids itemids, zip matrix_userids userids,
       zip itemids matrix_itemids, zip userids matrix_userids))"

text \<open>
  The \<^verbatim>\<open>implicit\<close> library: the two weightings, and the five model classes, each taken
  as construction with its parameters followed by \<^verbatim>\<open>fit\<close> on the item-user matrix.
\<close>

record implicit_library =
  bm25_weight :: "rat list list \<Rightarrow> rat list list"
  tfidf_weight :: "rat list list \<Rightarrow> rat list list"
  AlternatingLeastSquares :: "rat list list \<Rightarrow> py_error + model_handle"
  BayesianPersonalizedRanking :: "rat list list \<Rightarrow> py_error + model_handle"
  ItemItemRecommender :: "rat list list \<Rightarrow> py_error + model_handle"
  CosineRecommender :: "rat list list \<Rightarrow> py_error + model_handle"
  TFIDFRecommender :: "rat list list \<Rightarrow> py_error + model_handle"

text \<open>\<^verbatim>\<open>fit\<close>: \<^verbatim>\<open>None\<close> for a model type that is neither \<^verbatim>\<open>'als'\<close> nor \<^verbatim>\<open>'bpr'\<close>.\<close>

definition fit :: "implicit_library \<Rightarrow> rat list list \<Rightarrow> string \<Rightarrow> py_error + model_handle option" where
  "fit lib user_item_matrix' model_type =
     (if model_type = ''als'' then
        (case AlternatingLeastSquares lib (transpose user_item_matrix') of
           Inl e \<Rightarrow> Inl e | Inr m \<Rightarrow> Inr (Some m))
      else if model_type = ''bpr'' then
        (case BayesianPersonalizedRanking lib (transpose user_item_matrix') of
           Inl e \<Rightarrow> Inl e | Inr m \<Rightarrow> Inr (Some m))
      else Inr None)"

text \<open>
  \<^verbatim>\<open>fit_own_recommender\<close>: for an unknown type \<^verbatim>\<open>own_recommender\<close> is \<^verbatim>\<open>None\<close> and
  \<^verbatim>\<open>own_recommender.fit\<close> raises \<^verbatim>\<open>AttributeError\<close>.
\<close>

definition fit_own_recommender ::
  "implicit_library \<Rightarrow> rat list list \<Rightarrow> string \<Rightarrow> py_error + model_handle" where
  "fit_own_recommender lib user_item_matrix' own_recommender_type =
     (if own_recommender_type = ''item-item'' then ItemItemRecommender lib (transpose user_item_matrix')
      else if own_recommender_type = ''cosine'' then CosineRecommender lib (transpose user_item_matrix')
      else if own_recommender_type = ''tfidf'' then TFIDFRecommender lib (transpose user_item_matrix')
      else Inl AttributeError)"

text \<open>
  \<^verbatim>\<open>__init__\<close>. \<^verbatim>\<open>groupby(...)['quantity'].count().reset_index()\<close> lists the observed groups
  in ascending order of their keys with the number of their records.
\<close>

definition init ::
  "(int list \<Rightarrow> nat \<Rightarrow> int) \<Rightarrow> implicit_library \<Rightarrow> interaction list \<Rightarrow> string \<Rightarrow> string \<Rightarrow> string \<Rightarrow> string
     \<Rightarrow> py_error + MainRecommender" where
  "init kind lib data weighting model_type own_recommender_type user_item_matrix_values =
     (let per_user =
            map (\<lambda>(u, i). (u, i, length (filter (\<lambda>r. user_id r = u \<and> item_id r = i) data)))
              (sort (remdups (map (\<lambda>r. (user_id r, item_id r)) data)));
          top = filter (\<lambda>(u, i, c). i \<noteq> 999999)
                  (sort_values_desc kind (\<lambda>(u, i, c). int c) per_user);
          per_item =
            map (\<lambda>i. (i, length (filter (\<lambda>r. item_id r = i) data)))
              (sort (remdups (map item_id data)));
          overall = map fst (filter (\<lambda>(i, c). i \<noteq> 999999)
                      (sort_values_desc kind (\<lambda>(i, c). int c) per_item)) in
      case priv_prepare_matrix data user_item_matrix_values of
        Inl e \<Rightarrow> Inl e
      | Inr frame \<Rightarrow>
          (case priv_prepare_dicts frame of
             (id_to_itemid', id_to_userid', itemid_to_id', userid_to_id') \<Rightarrow>
               (let matrix =
                      (if weighting = ''bm25''
                         then transpose (bm25_weight lib (transpose (frame_values frame)))
                       else if weighting = ''tfidf''
                         then transpose (tfidf_weight lib (transpose (frame_values frame)))
                       else frame_values frame) in
                case fit lib matrix model_type of
                  Inl e \<Rightarrow> Inl e
                | Inr m \<Rightarrow>
                    (case fit_own_recommender lib matrix own_recommender_type of
                       Inl e \<Rightarrow> Inl e
                     | Inr own \<Rightarrow>
                         Inr \<lparr>top_purchases = top, overall_top_purchases = overall,
                              user_item_matrix = matrix,
                              id_to_itemid = id_to_itemid', id_to_userid = id_to_userid',
                              itemid_to_id = itemid_to_id', userid_to_id = userid_to_id',
                              model = m, own_recommender = own\<rparr>))))"

text \<open>An engine with no users and no items, and a model that answers nothing.\<close>

definition silent_model :: model_handle where
  "silent_model =
     \<lparr>recommend = (\<lambda>_ _ _ _. Inr []), similar_items = (\<lambda>_ _. Inr []),
      similar_users = (\<lambda>_ _. Inr [])\<rparr>"

definition blank_engine :: MainRecommender where
  "blank_engine =
     \<lparr>top_purchases = [], overall_top_purchases = [], user_item_matrix = [],
      id_to_itemid = [], id_to_userid = [], itemid_to_id = [], userid_to_id = [],
      model = Some silent_model, own_recommender = silent_model\<rparr>"

section \<open>A small data set\<close>

text \<open>
  Two users and three items, the placeholder among them; item 10 has two records of
  user 1. The matrix indices are 0, 1, 2 for the items 10, 20, 999999 and 0, 1 for the
  users 1, 2.
\<close>

definition demo_data :: "interaction list" where
  "demo_data =
     [\<lparr>user_id = 1, item_id = 10, quantity = 2, sales_value = 3\<rparr>,
      \<lparr>user_id = 1, item_id = 10, quantity = 4, sales_value = 5\<rparr>,
      \<lparr>user_id = 1, item_id = 999999, quantity = 1, sales_value = 1\<rparr>,
      \<lparr>user_id = 2, item_id = 20, quantity = 1, sales_value = 2\<rparr>,
      \<lparr>user_id = 2, item_id = 999999, quantity = 1, sales_value = 1\<rparr>]"

text \<open>
  A fitted model over three items and two users: \<open>recommend\<close> ranks the items 1, 0, 2
  and leaves out the filtered ones; a similarity query answers the query itself first
  and its cyclic successor second.
\<close>

definition demo_model :: model_handle where
  "demo_model =
     \<lparr>recommend = (\<lambda>uidx user_items N filter_items.
        Inr (take (nat N) (filter (\<lambda>(i, score). i \<notin> set filter_items) [(1, 1), (0, 1 / 2), (2, 1 / 4)]))),
      similar_items = (\<lambda>idx N.
        Inr (take (nat N) [(idx, 1), (if idx = 0 then 1 else if idx = 1 then 2 else 0, 1 / 2)])),
      similar_users = (\<lambda>idx N.
        Inr (take (nat N) [(idx, 1), (if idx = 0 then 1 else 0, 1 / 2)]))\<rparr>"

definition demo_library :: implicit_library where
  "demo_library =
     \<lparr>bm25_weight = (\<lambda>m. m), tfidf_weight = (\<lambda>m. m),
      AlternatingLeastSquares = (\<lambda>m. Inr demo_model),
      BayesianPersonalizedRanking = (\<lambda>m. Inr demo_model),
      ItemItemRecommender = (\<lambda>m. Inr demo_model),
      CosineRecommender = (\<lambda>m. Inr demo_model),
      TFIDFRecommender = (\<lambda>m. Inr demo_model)\<rparr>"

text \<open>The engine that \<^verbatim>\<open>MainRecommender(demo_data)\<close> builds with the default arguments.\<close>

definition demo_engine :: MainRecommender where
  "demo_engine =
     \<lparr>top_purchases = [(1, 10, 2), (2, 20, 1)],
      overall_top_purchases = [10, 20],
      user_item_matrix = [[2, 0, 1], [0, 1, 1]],
      id_to_itemid = [(0, 10), (1, 20), (2, 999999)],
      id_to_userid = [(0, 1), (1, 2)],
      itemid_to_id = [(10, 0), (20, 1), (999999, 2)],
      userid_to_id = [(1, 0), (2, 1)],
      model = Some demo_model, own_recommender = demo_model\<rparr>"






text \<open>A sort kind that leaves equal keys in the reverse of their order.\<close>

definition ties_reversed :: "'b list \<Rightarrow> nat \<Rightarrow> int" where
  "ties_reversed keys i = - int i"

text \<open>A score table: user 1 has one scored item, user 2 has seven.\<close>

definition demo_predict :: "prediction list" where
  "demo_predict =
     [\<lparr>pred_user_id = 1, pred_item_id = 10, proba_item_purchase = 1 / 4\<rparr>,
      \<lparr>pred_user_id = 2, pred_item_id = 31, proba_item_purchase = 1 / 8\<rparr>,
      \<lparr>pred_user_id = 2, pred_item_id = 32, proba_item_purchase = 7 / 8\<rparr>,
      \<lparr>pred_user_id = 2, pred_item_id = 33, proba_item_purchase = 3 / 8\<rparr>,
      \<lparr>pred_user_id = 2, pred_item_id = 34, proba_item_purchase = 5 / 8\<rparr>,
      \<lparr>pred_user_id = 2, pred_item_id = 35, proba_item_purchase = 1 / 2\<rparr>,
      \<lparr>pred_user_id = 2, pred_item_id = 36, proba_item_purchase = 1 / 4\<rparr>,
      \<lparr>pred_user_id = 2, pred_item_id = 37, proba_item_purchase = 3 / 4\<rparr>]"

text \<open>Metric functions that count the hits among the first \<open>k\<close> recommendations.\<close>

definition demo_metrics :: metrics where
  "demo_metrics =
     \<lparr>recall_at_k = (\<lambda>recommended actual k.
        if actual = [] then Inr 0
        else Inr (of_nat (length (filter (\<lambda>x. x \<in> set (head k recommended)) actual))
                    / of_nat (length actual))),
      precision_at_k = (\<lambda>recommended actual k.
        if k = 0 then Inl ValueError
        else Inr (of_nat (length (filter (\<lambda>x. x \<in> set (head k recommended)) actual))
                    / of_int k))\<rparr>"

section \<open>What a call may change\<close>

text \<open>
  Two engines agree on every attribute but the two user dicts \<open>userid_to_id\<close> and
  \<open>id_to_userid\<close>.
\<close>

definition same_tables :: "MainRecommender \<Rightarrow> MainRecommender \<Rightarrow> bool" where
  "same_tables s s' \<longleftrightarrow>
     user_item_matrix s' = user_item_matrix s \<and>
     itemid_to_id s' = itemid_to_id s \<and>
     id_to_itemid s' = id_to_itemid s \<and>
     top_purchases s' = top_purchases s \<and>
     overall_top_purchases s' = overall_top_purchases s \<and>
     model s' = model s \<and>
     own_recommender s' = own_recommender s"

section \<open>The contract of a fitted model\<close>









section \<open>The fallback law\<close>

lemma extend_short:
  "int (length raw) < N \<Longrightarrow>
   priv_extend_with_top_popular s raw N =
     raw @ take (nat N - length raw) (overall_top_purchases s)"
  by (simp add: priv_extend_with_top_popular_def min_def)

lemma extend_long:
  "N \<le> int (length raw) \<Longrightarrow> priv_extend_with_top_popular s raw N = raw"
  by (simp add: priv_extend_with_top_popular_def)

text \<open>
  C2. When the raw output has length \<open>L < N\<close>, the first \<open>L\<close> entries of the result
  are the raw output and the entries after them are the first \<open>N - L\<close> entries of
  \<open>overall_top_purchases\<close> (nothing is deduplicated); a raw output of length at least
  \<open>N\<close> is returned as it is.
\<close>

theorem fallback_law:
  "(int (length raw) < N \<longrightarrow>
      take (length raw) (priv_extend_with_top_popular s raw N) = raw \<and>
      drop (length raw) (priv_extend_with_top_popular s raw N) =
        take (nat N - length raw) (overall_top_purchases s)) \<and>
   (N \<le> int (length raw) \<longrightarrow> priv_extend_with_top_popular s raw N = raw)"
  by (simp add: extend_short extend_long)

theorem fallback_law_scenario:
  "priv_extend_with_top_popular (blank_engine\<lparr>overall_top_purchases := [1, 2, 3, 4, 5]\<rparr>) [7, 8] 5
     = [7, 8, 1, 2, 3]"
proof -
  let ?s = "blank_engine\<lparr>overall_top_purchases := [1, 2, 3, 4, 5]\<rparr>"
  let ?out = "priv_extend_with_top_popular ?s [7, 8] 5"
  let ?raw = "[7, 8] :: int list"
  have short: "int (length ?raw) < 5" by simp
  from fallback_law [of ?raw 5 ?s] short
  have parts: "take (length ?raw) ?out = ?raw"
    "drop (length ?raw) ?out = take (nat 5 - length ?raw) (overall_top_purchases ?s)"
    by blast+
  have "?out = take (length ?raw) ?out @ drop (length ?raw) ?out"
    by (simp only: append_take_drop_id)
  also have "\<dots> = ?raw @ take (nat 5 - length ?raw) (overall_top_purchases ?s)"
    by (simp only: parts)
  also have "\<dots> = [7, 8, 1, 2, 3]"
    by (simp add: blank_engine_def)
  finally show ?thesis .
qed

section \<open>Registering a user\<close>

lemma fold_max_Max: "fold max vs (v::int) = Max (set (v # vs))"
  by (rule Max.set_eq_fold [symmetric])

lemma update_dict_known:
  "uid \<in> fst ` set (userid_to_id s) \<Longrightarrow> priv_update_dict s uid = (Inr (), s)"
  by (simp add: priv_update_dict_def)

lemma update_dict_empty:
  "userid_to_id s = [] \<Longrightarrow> priv_update_dict s uid = (Inl ValueError, s)"
  by (simp add: priv_update_dict_def)

lemma update_dict_new:
  assumes "uid \<notin> fst ` set (userid_to_id s)" and "userid_to_id s \<noteq> []"
  shows "priv_update_dict s uid =
           (Inr (), s\<lparr>userid_to_id :=
                        AList.update uid (Max (snd ` set (userid_to_id s)) + 1) (userid_to_id s),
                      id_to_userid :=
                        AList.update (Max (snd ` set (userid_to_id s)) + 1) uid (id_to_userid s)\<rparr>)"
proof -
  obtain p ps where ps: "userid_to_id s = p # ps"
    using assms(2) by (cases "userid_to_id s") auto
  have "fold max (map snd ps) (snd p) = Max (snd ` set (userid_to_id s))"
    by (simp add: fold_max_Max ps)
  then show ?thesis
    using assms(1) by (simp add: priv_update_dict_def ps Let_def)
qed

lemma update_dict_state_idem:
  "snd (priv_update_dict (snd (priv_update_dict s uid)) uid) = snd (priv_update_dict s uid)"
proof (cases "uid \<in> fst ` set (userid_to_id s)")
  case True
  then show ?thesis by (simp add: update_dict_known)
next
  case False
  show ?thesis
  proof (cases "userid_to_id s = []")
    case True
    then show ?thesis by (simp add: update_dict_empty)
  next
    case nonempty: False
    let ?s' = "snd (priv_update_dict s uid)"
    have "uid \<in> fst ` set (userid_to_id ?s')"
      using False nonempty by (simp add: update_dict_new AList.dom_update)
    then show ?thesis by (simp add: update_dict_known)
  qed
qed

text \<open>
  C6, as the code has it. For an id that is already a key, \<^verbatim>\<open>_update_dict\<close> changes
  nothing. For an unknown id, when the dict has at least one index, it assigns the
  largest index plus one and enters the pair in both dicts, leaving every other
  attribute as it was. When the dict is empty the call raises \<^verbatim>\<open>ValueError\<close> and
  registers nothing. A second call with the same id never changes the engine again.
\<close>

theorem update_dict_registers:
  "(uid \<in> fst ` set (userid_to_id s) \<longrightarrow> priv_update_dict s uid = (Inr (), s)) \<and>
   (uid \<notin> fst ` set (userid_to_id s) \<and> userid_to_id s \<noteq> [] \<longrightarrow>
      (\<exists>s'. priv_update_dict s uid = (Inr (), s') \<and>
         map_of (userid_to_id s') =
           (map_of (userid_to_id s))(uid \<mapsto> Max (snd ` set (userid_to_id s)) + 1) \<and>
         map_of (id_to_userid s') =
           (map_of (id_to_userid s))(Max (snd ` set (userid_to_id s)) + 1 \<mapsto> uid) \<and>
         s' = s\<lparr>userid_to_id := userid_to_id s', id_to_userid := id_to_userid s'\<rparr>)) \<and>
   (userid_to_id s = [] \<longrightarrow> priv_update_dict s uid = (Inl ValueError, s)) \<and>
   snd (priv_update_dict (snd (priv_update_dict s uid)) uid) = snd (priv_update_dict s uid)"
  by (simp add: update_dict_known update_dict_empty update_dict_new update_dict_state_idem
      update_conv')

theorem update_dict_registers_demo:
  "priv_update_dict demo_engine 2 = (Inr (), demo_engine) \<and>
   fst (priv_update_dict demo_engine 7) = Inr () \<and>
   map_of (userid_to_id (snd (priv_update_dict demo_engine 7))) 7 = Some 2 \<and>
   map_of (id_to_userid (snd (priv_update_dict demo_engine 7))) 2 = Some 7 \<and>
   priv_update_dict blank_engine 7 = (Inl ValueError, blank_engine)"
proof -
  have known: "2 \<in> fst ` set (userid_to_id demo_engine)"
    and new: "7 \<notin> fst ` set (userid_to_id demo_engine) \<and> userid_to_id demo_engine \<noteq> []"
    and mx: "Max (snd ` set (userid_to_id demo_engine)) + 1 = 2"
    and empty: "userid_to_id blank_engine = []"
    by (simp_all add: demo_engine_def blank_engine_def)
  from update_dict_registers [of 2 demo_engine] known
  have a: "priv_update_dict demo_engine 2 = (Inr (), demo_engine)" by blast
  from update_dict_registers [of 7 demo_engine] new obtain s' where
    s': "priv_update_dict demo_engine 7 = (Inr (), s')"
      "map_of (userid_to_id s') =
         (map_of (userid_to_id demo_engine))(7 \<mapsto> Max (snd ` set (userid_to_id demo_engine)) + 1)"
      "map_of (id_to_userid s') =
         (map_of (id_to_userid demo_engine))(Max (snd ` set (userid_to_id demo_engine)) + 1 \<mapsto> 7)"
    by blast
  from update_dict_registers [of 7 blank_engine] empty
  have c: "priv_update_dict blank_engine 7 = (Inl ValueError, blank_engine)" by blast
  show ?thesis using a s' c by (simp add: mx)
qed

text \<open>
  With no index at all, the unknown id 7 is not given the index 0: the call raises.
\<close>

theorem update_dict_empty_counterexample:
  "fst (priv_update_dict blank_engine 7) = Inl ValueError \<and>
   map_of (userid_to_id (snd (priv_update_dict blank_engine 7))) 7 \<noteq> Some 0"
  by (simp add: priv_update_dict_def blank_engine_def)

section \<open>The cells of the user-item matrix\<close>

lemma loc_pivot_table:
  assumes "u \<in> user_id ` set data" and "i \<in> item_id ` set data"
  shows "loc (pivot_table data aggfunc) u i =
           Some (let rows = filter (\<lambda>r. user_id r = u \<and> item_id r = i) data in
                 if rows = [] then 0 else aggfunc rows)"
  using assms by (simp add: loc_def pivot_table_def Let_def map_of_zip_map)

text \<open>
  C4, as the code has it. With the value mode \<^verbatim>\<open>'quantity'\<close> the cell of a user and an
  item is the arithmetic mean of \<^verbatim>\<open>quantity\<close> over the records of the pair, and with
  \<^verbatim>\<open>'purchase_sum'\<close> it is the mean of \<^verbatim>\<open>sales_value\<close>; a pair with no record has 0.
\<close>

theorem prepare_matrix_cell_is_mean:
  assumes "u \<in> user_id ` set data" and "i \<in> item_id ` set data"
  shows "(\<exists>frame. priv_prepare_matrix data ''quantity'' = Inr frame \<and>
            loc frame u i =
              Some (let rows = filter (\<lambda>r. user_id r = u \<and> item_id r = i) data in
                    if rows = [] then 0
                    else (\<Sum>r\<leftarrow>rows. of_int (quantity r)) / of_nat (length rows))) \<and>
         (\<exists>frame. priv_prepare_matrix data ''purchase_sum'' = Inr frame \<and>
            loc frame u i =
              Some (let rows = filter (\<lambda>r. user_id r = u \<and> item_id r = i) data in
                    if rows = [] then 0
                    else (\<Sum>r\<leftarrow>rows. sales_value r) / of_nat (length rows)))"
  using assms by (simp add: priv_prepare_matrix_def loc_pivot_table agg_mean_def Let_def)

theorem prepare_matrix_cell_is_mean_demo:
  "(case priv_prepare_matrix demo_data ''quantity'' of
      Inl e \<Rightarrow> None | Inr frame \<Rightarrow> loc frame 1 10) = Some ((2 + 4) / 2) \<and>
   (case priv_prepare_matrix demo_data ''purchase_sum'' of
      Inl e \<Rightarrow> None | Inr frame \<Rightarrow> loc frame 1 10) = Some ((3 + 5) / 2) \<and>
   (case priv_prepare_matrix demo_data ''quantity'' of
      Inl e \<Rightarrow> None | Inr frame \<Rightarrow> loc frame 1 20) = Some 0"
proof -
  have u: "1 \<in> user_id ` set demo_data"
    and i: "10 \<in> item_id ` set demo_data" and j: "20 \<in> item_id ` set demo_data"
    by (simp_all add: demo_data_def)
  show ?thesis
    using prepare_matrix_cell_is_mean [OF u i] prepare_matrix_cell_is_mean [OF u j]
    by (auto simp: demo_data_def)
qed

text \<open>
  User 1 has two records of item 10, with the quantities 2 and 4 and the sales values
  3 and 5: the cells are 3 and 4, not the sums 6 and 8.
\<close>

theorem prepare_matrix_sum_counterexample:
  "(case priv_prepare_matrix demo_data ''quantity'' of
      Inl e \<Rightarrow> None | Inr frame \<Rightarrow> loc frame 1 10) = Some 3 \<and>
   (\<Sum>r\<leftarrow>filter (\<lambda>r. user_id r = 1 \<and> item_id r = 10) demo_data. of_int (quantity r)) = (6 :: rat) \<and>
   (case priv_prepare_matrix demo_data ''purchase_sum'' of
      Inl e \<Rightarrow> None | Inr frame \<Rightarrow> loc frame 1 10) = Some 4 \<and>
   (\<Sum>r\<leftarrow>filter (\<lambda>r. user_id r = 1 \<and> item_id r = 10) demo_data. sales_value r) = 8"
  by code_simp

section \<open>Re-ranking\<close>

lemma collect_total:
  "(\<And>x. x \<in> set xs \<Longrightarrow> f x = Inr (g x)) \<Longrightarrow> collect f xs = Inr (map g xs)"
  by (induction xs) simp_all

lemma apply_strategy_length:
  "apply_strategy f s xs N = (Inr rs, s') \<Longrightarrow> length rs = length xs"
proof (induction xs arbitrary: s rs)
  case Nil
  then show ?case by simp
next
  case (Cons x xs)
  then show ?case
    by (auto split: prod.splits sum.splits)
qed

lemma target_column_length:
  "target_column result_eval target_col_name = Inr xs \<Longrightarrow> length xs = length result_eval"
  by (auto simp: target_column_def split: if_splits)

lemma fill_result_column_rows:
  assumes "fill_result_column f s result_eval target_col_name N = (Inr rows, s')"
  shows "map (\<lambda>(u, actual, r). (u, actual)) rows = result_eval"
proof -
  from assms obtain xs rs where xs: "target_column result_eval target_col_name = Inr xs"
    and rs: "apply_strategy f s xs N = (Inr rs, s')"
    and rows: "rows = map (\<lambda>((u, actual), r). (u, actual, r)) (zip result_eval rs)"
    by (auto simp: fill_result_column_def split: sum.splits prod.splits)
  have "length rs = length result_eval"
    using apply_strategy_length [OF rs] target_column_length [OF xs] by simp
  then have "map fst (zip result_eval rs) = result_eval"
    by simp
  moreover have "map (\<lambda>(u, actual, r). (u, actual)) rows = map fst (zip result_eval rs)"
    by (simp add: rows case_prod_unfold)
  ultimately show ?thesis by simp
qed

lemma get_recommend_eval_rows:
  assumes "priv_get_recommend_eval s result_eval target_col_name tag N = (Inr (Some rows), s')"
  shows "map (\<lambda>(u, actual, r). (u, actual)) rows = result_eval"
  using assms
  by (auto simp: priv_get_recommend_eval_def Let_def
      split: if_splits prod.splits sum.splits dest: fill_result_column_rows)

text \<open>The ranking of one user: the item ids of the user's five best-scored rows.\<close>

lemma rerank_user_id:
  "priv_rerank kind uid df_predict ''user_id'' =
     Inr (map pred_item_id
           (take 5 (sort_values_desc kind proba_item_purchase
                      (filter (\<lambda>r. pred_user_id r = uid) df_predict))))"
  by (simp add: priv_rerank_def predict_column_def head_def)

lemma sort_values_desc_mset: "mset (sort_values_desc kind col rows) = mset rows"
proof -
  have "mset (sort_values_desc kind col rows) = mset (map snd (zip [0..<length rows] rows))"
    unfolding sort_values_desc_def by (simp only: mset_map mset_sort)
  also have "map snd (zip [0..<length rows] rows) = rows"
    by simp
  finally show ?thesis .
qed

lemma sort_values_desc_length: "length (sort_values_desc kind col rows) = length rows"
  by (simp add: sort_values_desc_def)

lemma sort_values_desc_sorted:
  fixes col :: "'a \<Rightarrow> rat"
  shows "sorted_wrt (\<lambda>a b. col b \<le> col a) (sort_values_desc kind col rows)"
proof -
  let ?key = "\<lambda>(i, r). (- col r, kind (map col rows) i)"
  let ?xs = "sort_key ?key (zip [0..<length rows] rows)"
  have "sorted (map ?key ?xs)" by (rule sorted_sort_key)
  then have "sorted_wrt (\<lambda>x y. ?key x \<le> ?key y) ?xs"
    by (simp add: sorted_map)
  then have "sorted_wrt (\<lambda>x y. col (snd y) \<le> col (snd x)) ?xs"
    by (rule sorted_wrt_mono_rel [rotated]) (auto simp: less_eq_prod_def)
  then show ?thesis
    by (simp add: sort_values_desc_def sorted_wrt_map)
qed

lemma sort_values_desc_sorted_int:
  fixes col :: "'a \<Rightarrow> int"
  shows "sorted (map (\<lambda>r. - col r) (sort_values_desc kind col rows))"
proof -
  let ?key = "\<lambda>(i, r). (- col r, kind (map col rows) i)"
  let ?xs = "sort_key ?key (zip [0..<length rows] rows)"
  have "sorted (map ?key ?xs)" by (rule sorted_sort_key)
  then have "sorted_wrt (\<lambda>x y. ?key x \<le> ?key y) ?xs"
    by (simp add: sorted_map)
  then have "sorted_wrt (\<lambda>x y. - col (snd x) \<le> - col (snd y)) ?xs"
    by (rule sorted_wrt_mono_rel [rotated]) (auto simp: less_eq_prod_def)
  then show ?thesis
    by (simp add: sort_values_desc_def sorted_wrt_map sorted_map)
qed

lemma sorted_arrangement_unique:
  assumes m: "mset ys = mset xs" and inj: "inj_on f (set xs)" and s: "sorted (map f ys)"
  shows "sort_key f xs = ys"
proof (rule properties_for_sort_key [OF m _ s])
  fix k assume "k \<in> set ys"
  have sets: "set ys = set xs" using m by (rule mset_eq_setD)
  have "filter (\<lambda>x. f k = f x) ys = filter (\<lambda>x. k = x) ys"
    using inj \<open>k \<in> set ys\<close> sets by (intro filter_cong refl) (auto dest: inj_onD)
  moreover have "filter (\<lambda>x. f k = f x) xs = filter (\<lambda>x. k = x) xs"
    using inj \<open>k \<in> set ys\<close> sets by (intro filter_cong refl) (auto dest: inj_onD)
  moreover have "filter (\<lambda>x. k = x) ys = filter (\<lambda>x. k = x) xs"
    by (simp only: replicate_count_mset_eq_filter_eq [symmetric] m)
  ultimately show "filter (\<lambda>x. f k = f x) ys = filter (\<lambda>x. f k = f x) xs" by simp
qed

lemma filter_sort_values_desc:
  fixes col :: "'a \<Rightarrow> int"
  assumes "inj_on col (set (filter P rows))"
  shows "filter P (sort_values_desc kind col rows) = sort_key (\<lambda>r. - col r) (filter P rows)"
proof (rule sorted_arrangement_unique [symmetric])
  show "mset (filter P (sort_values_desc kind col rows)) = mset (filter P rows)"
    by (simp add: sort_values_desc_mset)
  show "inj_on (\<lambda>r. - col r) (set (filter P rows))"
    using assms by (auto simp: inj_on_def)
  show "sorted (map (\<lambda>r. - col r) (filter P (sort_values_desc kind col rows)))"
    by (rule sorted_filter) (rule sort_values_desc_sorted_int)
qed

lemma reranked_metrics_run:
  assumes "reranked_metrics kind mt s metric_type df_result df_predict target_col_name
             recommend_model_type N_PREDICT flag = (Inr (m, tbl), s')"
  obtains rows xs reranked where
    "priv_get_recommend_eval s (priv_get_result df_result) target_col_name
       recommend_model_type N_PREDICT = (Inr (Some rows), s')"
    "target_column (map (\<lambda>(u, actual, r). (u, actual)) rows) target_col_name = Inr xs"
    "collect (\<lambda>x. rerank_cell kind x df_predict target_col_name) xs = Inr reranked"
    "tbl = (if flag
            then Some (map (\<lambda>(u, actual, rr). (u, rr))
                        (map (\<lambda>((u, actual, r), rr). (u, actual, rr)) (zip rows reranked)))
            else None)"
proof -
  obtain r s1 where e: "priv_get_recommend_eval s (priv_get_result df_result) target_col_name
       recommend_model_type N_PREDICT = (r, s1)"
    by (cases "priv_get_recommend_eval s (priv_get_result df_result) target_col_name
       recommend_model_type N_PREDICT") 
  from assms e obtain rows where r: "r = Inr (Some rows)"
    by (cases r; cases "projr r") (simp_all add: reranked_metrics_def)
  let ?c = "target_column (map (\<lambda>(u, actual, r). (u, actual)) rows) target_col_name"
  from assms e r obtain xs where xs: "?c = Inr xs"
    by (cases ?c) (simp_all add: reranked_metrics_def)
  let ?k = "collect (\<lambda>x. rerank_cell kind x df_predict target_col_name) xs"
  from assms e r xs obtain reranked where rr: "?k = Inr reranked"
    by (cases ?k) (simp_all add: reranked_metrics_def)
  let ?re = "map (\<lambda>((u, actual, r), rr). (u, actual, rr)) (zip rows reranked)"
  let ?mr = "if metric_type = ''recall'' then
               row_mean (\<lambda>(u, actual, rr). recall_at_k mt rr actual N_PREDICT) ?re
             else if metric_type = ''precision'' then
               row_mean (\<lambda>(u, actual, rr). precision_at_k mt rr actual N_PREDICT) ?re
             else Inr PyNone"
  from assms e r xs rr
  have "(case ?mr of Inl e \<Rightarrow> (Inl e, s1)
         | Inr m \<Rightarrow> (if flag then (Inr (m, Some (map (\<lambda>(u, actual, rr). (u, rr)) ?re)), s1)
                      else (Inr (m, None), s1))) = (Inr (m, tbl), s')"
    by (simp add: reranked_metrics_def Let_def)
  then have "s1 = s' \<and> tbl = (if flag then Some (map (\<lambda>(u, actual, rr). (u, rr)) ?re) else None)"
    by (cases ?mr) (simp_all split: if_splits)
  then show ?thesis
    using that [of rows xs reranked] e r xs rr by simp
qed


lemma reranked_table:
  assumes "reranked_metrics kind mt s metric_type df_result df_predict ''user_id''
             recommend_model_type N_PREDICT True = (Inr (m, Some tbl), s')"
  shows "tbl = map (\<lambda>u. (u, map pred_item_id
                 (take 5 (sort_values_desc kind proba_item_purchase
                            (filter (\<lambda>r. pred_user_id r = u) df_predict)))))
               (sort (remdups (map user_id df_result)))"
proof -
  let ?top = "\<lambda>u. map pred_item_id
                 (take 5 (sort_values_desc kind proba_item_purchase
                            (filter (\<lambda>r. pred_user_id r = u) df_predict)))"
  let ?re = "priv_get_result df_result"
  from assms obtain rows xs reranked where
    rows: "priv_get_recommend_eval s ?re ''user_id'' recommend_model_type N_PREDICT
             = (Inr (Some rows), s')"
    and xs: "target_column (map (\<lambda>(u, actual, r). (u, actual)) rows) ''user_id'' = Inr xs"
    and reranked: "collect (\<lambda>x. rerank_cell kind x df_predict ''user_id'') xs = Inr reranked"
    and tbl: "Some tbl = Some (map (\<lambda>(u, actual, rr). (u, rr))
                        (map (\<lambda>((u, actual, r), rr). (u, actual, rr)) (zip rows reranked)))"
    by (rule reranked_metrics_run) simp
  have re: "map (\<lambda>(u, actual, r). (u, actual)) rows = ?re"
    by (rule get_recommend_eval_rows [OF rows])
  have cells: "xs = map (\<lambda>u. UserCell u) (map fst ?re)"
    using xs unfolding re by (simp add: target_column_def case_prod_unfold comp_def)
  have "collect (\<lambda>x. rerank_cell kind x df_predict ''user_id'') (map (\<lambda>u. UserCell u) (map fst ?re))
      = Inr (map (\<lambda>x. case x of UserCell u \<Rightarrow> ?top u | ArrayCell a \<Rightarrow> [])
               (map (\<lambda>u. UserCell u) (map fst ?re)))"
    by (rule collect_total) (auto simp: rerank_cell_def rerank_user_id)
  then have ranked: "reranked = map ?top (map fst ?re)"
    using reranked by (simp add: cells comp_def)
  have users: "map fst ?re = map (\<lambda>(u, actual, r). u) rows"
    by (simp add: re [symmetric] case_prod_unfold comp_def)
  have "tbl = map (\<lambda>(u, actual, rr). (u, rr))
                (map (\<lambda>((u, actual, r), rr). (u, actual, rr)) (zip rows reranked))"
    using tbl by simp
  also have "\<dots> = map (\<lambda>u. (u, ?top u)) (map (\<lambda>(u, actual, r). u) rows)"
    by (rule nth_equalityI) (simp_all add: ranked users case_prod_unfold)
  also have "map (\<lambda>(u, actual, r). u) rows = sort (remdups (map user_id df_result))"
    by (simp add: users [symmetric] priv_get_result_def comp_def)
  finally show ?thesis .
qed


lemma demo_rerank_run:
  "fst (reranked_metrics ties_reversed demo_metrics demo_engine ''recall'' demo_data demo_predict ''user_id''
          ''own'' 2 True)
     = Inr (Float (1 / 4), Some [(1, [10]), (2, [32, 37, 34, 35, 33])])"
  by code_simp

text \<open>
  C5. \<^verbatim>\<open>_rerank\<close> on the user column returns the item ids of the user's rows of the
  score table, ordered by score descending and cut to the first five. Whatever \<^verbatim>\<open>N_PREDICT\<close> and the strategy are, the frame that \<^verbatim>\<open>reranked_metrics\<close>
  returns has one row per user of the held-out data, with that ranking.
\<close>

theorem reranked_ranking_top5:
  assumes "reranked_metrics kind mt s metric_type df_result df_predict ''user_id''
             recommend_model_type N_PREDICT True = (Inr (m, Some tbl), s')"
  shows "(\<exists>ordered. priv_rerank kind uid df_predict ''user_id'' = Inr (map pred_item_id (take 5 ordered)) \<and>
            mset ordered = mset (filter (\<lambda>r. pred_user_id r = uid) df_predict) \<and>
            sorted_wrt (\<lambda>a b. proba_item_purchase b \<le> proba_item_purchase a) ordered) \<and>
         map fst tbl = sort (remdups (map user_id df_result)) \<and>
         (\<forall>(u, ranking) \<in> set tbl.
            \<exists>ordered. mset ordered = mset (filter (\<lambda>r. pred_user_id r = u) df_predict) \<and>
              sorted_wrt (\<lambda>a b. proba_item_purchase b \<le> proba_item_purchase a) ordered \<and>
              ranking = map pred_item_id (take 5 ordered))"
proof -
  let ?ordered = "\<lambda>u. sort_values_desc kind proba_item_purchase
                        (filter (\<lambda>r. pred_user_id r = u) df_predict)"
  have tbl: "tbl = map (\<lambda>u. (u, map pred_item_id (take 5 (?ordered u))))
                     (sort (remdups (map user_id df_result)))"
    by (rule reranked_table [OF assms])
  have "\<exists>ordered. priv_rerank kind uid df_predict ''user_id'' = Inr (map pred_item_id (take 5 ordered)) \<and>
            mset ordered = mset (filter (\<lambda>r. pred_user_id r = uid) df_predict) \<and>
            sorted_wrt (\<lambda>a b. proba_item_purchase b \<le> proba_item_purchase a) ordered"
    by (intro exI conjI) (rule rerank_user_id sort_values_desc_mset sort_values_desc_sorted)+
  moreover have "map fst tbl = sort (remdups (map user_id df_result))"
    by (simp add: tbl comp_def)
  moreover have "\<exists>ordered. mset ordered = mset (filter (\<lambda>r. pred_user_id r = u) df_predict) \<and>
              sorted_wrt (\<lambda>a b. proba_item_purchase b \<le> proba_item_purchase a) ordered \<and>
              ranking = map pred_item_id (take 5 ordered)"
    if "(u, ranking) \<in> set tbl" for u ranking
  proof (intro exI conjI)
    show "mset (?ordered u) = mset (filter (\<lambda>r. pred_user_id r = u) df_predict)"
      by (rule sort_values_desc_mset)
    show "sorted_wrt (\<lambda>a b. proba_item_purchase b \<le> proba_item_purchase a) (?ordered u)"
      by (rule sort_values_desc_sorted)
    show "ranking = map pred_item_id (take 5 (?ordered u))"
      using that by (auto simp: tbl)
  qed
  ultimately show ?thesis by blast
qed

theorem reranked_ranking_top5_demo:
  "fst (reranked_metrics ties_reversed demo_metrics demo_engine ''recall'' demo_data demo_predict ''user_id''
          ''own'' 2 True)
     = Inr (Float (1 / 4), Some [(1, [10]), (2, [32, 37, 34, 35, 33])]) \<and>
   (\<exists>ordered. mset ordered = mset (filter (\<lambda>r. pred_user_id r = 2) demo_predict) \<and>
      sorted_wrt (\<lambda>a b. proba_item_purchase b \<le> proba_item_purchase a) ordered \<and>
      [32, 37, 34, 35, 33] = map pred_item_id (take 5 ordered))"
proof -
  let ?run = "reranked_metrics ties_reversed demo_metrics demo_engine ''recall'' demo_data demo_predict
                ''user_id'' ''own'' 2 True"
  have run: "?run = (Inr (Float (1 / 4), Some [(1, [10]), (2, [32, 37, 34, 35, 33])]), snd ?run)"
    using demo_rerank_run by (metis prod.collapse)
  from reranked_ranking_top5 [OF run] show ?thesis
    using demo_rerank_run by auto
qed

text \<open>
  C10. The ranking that the re-ranking path returns for a user has as many entries as
  the score table has rows for the user, up to five: it is not padded from
  \<open>overall_top_purchases\<close>, and its length does not follow \<^verbatim>\<open>N_PREDICT\<close>.
\<close>

theorem reranked_ranking_length:
  assumes "reranked_metrics kind mt s metric_type df_result df_predict ''user_id''
             recommend_model_type N_PREDICT True = (Inr (m, Some tbl), s')"
    and "(u, ranking) \<in> set tbl"
  shows "length ranking = min 5 (length (filter (\<lambda>r. pred_user_id r = u) df_predict))"
proof -
  have "ranking = map pred_item_id
                    (take 5 (sort_values_desc kind proba_item_purchase
                               (filter (\<lambda>r. pred_user_id r = u) df_predict)))"
    using assms(2) by (auto simp: reranked_table [OF assms(1)])
  then show ?thesis
    by (simp add: sort_values_desc_length min.commute)
qed

theorem reranked_ranking_length_demo:
  "fst (reranked_metrics ties_reversed demo_metrics demo_engine ''recall'' demo_data demo_predict ''user_id''
          ''own'' 2 True)
     = Inr (Float (1 / 4), Some [(1, [10]), (2, [32, 37, 34, 35, 33])]) \<and>
   length [10 :: int] = min 5 (length (filter (\<lambda>r. pred_user_id r = 1) demo_predict)) \<and>
   length [10 :: int] < 2 \<and>
   length [32, 37, 34, 35, 33 :: int] = min 5 (length (filter (\<lambda>r. pred_user_id r = 2) demo_predict)) \<and>
   2 < length [32, 37, 34, 35, 33 :: int]"
proof -
  let ?run = "reranked_metrics ties_reversed demo_metrics demo_engine ''recall'' demo_data demo_predict
                ''user_id'' ''own'' 2 True"
  have run: "?run = (Inr (Float (1 / 4), Some [(1, [10]), (2, [32, 37, 34, 35, 33])]), snd ?run)"
    using demo_rerank_run by (metis prod.collapse)
  have "length [10 :: int] = min 5 (length (filter (\<lambda>r. pred_user_id r = 1) demo_predict))"
    by (rule reranked_ranking_length [OF run]) simp
  moreover
  have "length [32, 37, 34, 35, 33 :: int] = min 5 (length (filter (\<lambda>r. pred_user_id r = 2) demo_predict))"
    by (rule reranked_ranking_length [OF run]) simp
  ultimately show ?thesis
    using demo_rerank_run by simp
qed

section \<open>The frame of the calls\<close>

lemma same_tables_refl: "same_tables s s"
  by (simp add: same_tables_def)

lemma same_tables_trans: "same_tables s s' \<Longrightarrow> same_tables s' s'' \<Longrightarrow> same_tables s s''"
  by (simp add: same_tables_def)

lemma update_dict_same: "priv_update_dict s uid = (r, s') \<Longrightarrow> same_tables s s'"
  by (auto simp: priv_update_dict_def same_tables_def Let_def split: if_splits list.splits)

lemma priv_get_recommendations_same:
  "priv_get_recommendations s uid mdl N = (r, s') \<Longrightarrow> same_tables s s'"
  by (auto simp: priv_get_recommendations_def split: prod.splits sum.splits
      dest: update_dict_same)

lemma get_recommendations_same:
  "get_recommendations s uid N = (r, s') \<Longrightarrow> same_tables s s'"
  by (auto simp: get_recommendations_def split: prod.splits sum.splits
      dest: update_dict_same priv_get_recommendations_same intro: same_tables_trans)

lemma get_own_recommendations_same:
  "get_own_recommendations s uid N = (r, s') \<Longrightarrow> same_tables s s'"
  by (auto simp: get_own_recommendations_def split: prod.splits sum.splits
      dest: update_dict_same priv_get_recommendations_same intro: same_tables_trans)

lemma get_similar_items_recommendation_same:
  "get_similar_items_recommendation s uid N = (r, s') \<Longrightarrow> s' = s"
  by (auto simp: get_similar_items_recommendation_def Let_def split: sum.splits if_splits)

lemma extend_from_similar_users_same:
  "extend_from_similar_users s us res = (r, s') \<Longrightarrow> same_tables s s'"
proof (induction us arbitrary: s res)
  case Nil
  then show ?case by (simp add: same_tables_refl)
next
  case (Cons u us)
  obtain r1 s1 where own: "get_own_recommendations s u 1 = (r1, s1)"
    by (cases "get_own_recommendations s u 1")
  have first: "same_tables s s1"
    by (rule get_own_recommendations_same [OF own])
  show ?case
  proof (cases r1)
    case (Inl e)
    with Cons.prems own first show ?thesis by simp
  next
    case (Inr items)
    with Cons.prems own have "extend_from_similar_users s1 us (res @ items) = (r, s')"
      by simp
    then have "same_tables s1 s'" by (rule Cons.IH)
    with first show ?thesis by (rule same_tables_trans)
  qed
qed

lemma get_similar_users_recommendation_same:
  "get_similar_users_recommendation s uid N = (r, s') \<Longrightarrow> same_tables s s'"
  by (auto simp: get_similar_users_recommendation_def Let_def same_tables_refl
      split: option.splits sum.splits prod.splits if_splits
      dest: extend_from_similar_users_same)

lemma own_on_cell_same: "own_on_cell s x N = (r, s') \<Longrightarrow> same_tables s s'"
  by (auto simp: own_on_cell_def same_tables_refl split: cell.splits
      dest: get_own_recommendations_same)

lemma rec_on_cell_same: "rec_on_cell s x N = (r, s') \<Longrightarrow> same_tables s s'"
  by (auto simp: rec_on_cell_def same_tables_refl split: cell.splits
      dest: get_recommendations_same)

lemma itm_on_cell_same: "itm_on_cell s x N = (r, s') \<Longrightarrow> same_tables s s'"
  by (auto simp: itm_on_cell_def Let_def same_tables_refl
      split: cell.splits sum.splits if_splits
      dest: get_similar_items_recommendation_same)

lemma usr_on_cell_same: "usr_on_cell s x N = (r, s') \<Longrightarrow> same_tables s s'"
  by (auto simp: usr_on_cell_def same_tables_refl split: cell.splits option.splits
      dest: get_similar_users_recommendation_same)

lemma apply_strategy_same:
  assumes f: "\<And>s x r s'. f s x N = (r, s') \<Longrightarrow> same_tables s s'"
  shows "apply_strategy f s xs N = (r, s') \<Longrightarrow> same_tables s s'"
proof (induction xs arbitrary: s r s')
  case Nil
  then show ?case by (simp add: same_tables_refl)
next
  case (Cons x xs)
  obtain r1 s1 where one: "f s x N = (r1, s1)"
    by (cases "f s x N")
  have first: "same_tables s s1" by (rule f [OF one])
  show ?case
  proof (cases r1)
    case (Inl e)
    with Cons.prems one first show ?thesis by simp
  next
    case (Inr items)
    obtain r2 s2 where rest: "apply_strategy f s1 xs N = (r2, s2)"
      by (cases "apply_strategy f s1 xs N")
    have "same_tables s1 s2" by (rule Cons.IH [OF rest])
    moreover have "s' = s2"
      using Cons.prems one Inr rest by (cases r2) simp_all
    ultimately show ?thesis using first by (blast intro: same_tables_trans)
  qed
qed

lemma fill_result_column_same:
  assumes f: "\<And>s x r s'. f s x N = (r, s') \<Longrightarrow> same_tables s s'"
    and run: "fill_result_column f s result_eval target_col_name N = (r, s')"
  shows "same_tables s s'"
proof (cases "target_column result_eval target_col_name")
  case (Inl e)
  with run show ?thesis by (simp add: fill_result_column_def same_tables_refl)
next
  case (Inr xs)
  obtain r1 s1 where app: "apply_strategy f s xs N = (r1, s1)"
    by (cases "apply_strategy f s xs N")
  have "same_tables s s1" by (rule apply_strategy_same [OF f app])
  moreover have "s' = s1"
    using run Inr app by (cases r1) (simp_all add: fill_result_column_def)
  ultimately show ?thesis by simp
qed

lemmas on_cell_same = own_on_cell_same rec_on_cell_same itm_on_cell_same usr_on_cell_same

lemma priv_get_recommend_eval_same:
  assumes "priv_get_recommend_eval s result_eval target_col_name tag N = (r, s')"
  shows "same_tables s s'"
proof -
  have filled: "same_tables s s'"
    if "(case fill_result_column f s result_eval target_col_name N of
           (Inl e, s') \<Rightarrow> (Inl e, s')
         | (Inr rows, s') \<Rightarrow> (Inr (Some rows), s')) = (r, s')"
      and f: "\<And>s x r s'. f s x N = (r, s') \<Longrightarrow> same_tables s s'" for f
  proof -
    obtain r1 s1 where run: "fill_result_column f s result_eval target_col_name N = (r1, s1)"
      by (cases "fill_result_column f s result_eval target_col_name N")
    have "same_tables s s1" by (rule fill_result_column_same [OF f run])
    moreover have "s' = s1" using that(1) run by (cases r1) simp_all
    ultimately show ?thesis by simp
  qed
  from assms show ?thesis
    by (auto simp: priv_get_recommend_eval_def Let_def same_tables_refl split: if_splits
        intro: filled on_cell_same)
qed


lemma evalMetrics_same:
  assumes "evalMetrics mt s metric_type df_result target_col_name tag N = (r, s')"
  shows "same_tables s s'"
proof -
  obtain r1 s1 where e: "priv_get_recommend_eval s (priv_get_result df_result) target_col_name tag N
      = (r1, s1)"
    by (cases "priv_get_recommend_eval s (priv_get_result df_result) target_col_name tag N")
  have "same_tables s s1" by (rule priv_get_recommend_eval_same [OF e])
  moreover have "s' = s1"
    using assms e by (cases r1) (auto simp: evalMetrics_def split: if_splits option.splits)
  ultimately show ?thesis by simp
qed

lemma evalMetrics_older_same:
  assumes "evalMetrics_older mt s metric_type df_result target_col_name tag N = (r, s')"
  shows "same_tables s s'"
proof -
  have scored: "same_tables s s'"
    if "(case fill_result_column f s (priv_get_result df_result) target_col_name N of
           (Inl e, s') \<Rightarrow> (Inl e, s')
         | (Inr rows, s') \<Rightarrow>
             (if metric_type = ''recall'' then
                (row_mean (\<lambda>(u, actual, r). recall_at_k mt r actual N) rows, s')
              else if metric_type = ''precision'' then
                (row_mean (\<lambda>(u, actual, r). precision_at_k mt r actual N) rows, s')
              else (Inr (PyStr ''recommend_model_type must not be empty!''), s'))) = (r, s')"
      and f: "\<And>s x r s'. f s x N = (r, s') \<Longrightarrow> same_tables s s'" for f
  proof -
    obtain r1 s1 where run:
      "fill_result_column f s (priv_get_result df_result) target_col_name N = (r1, s1)"
      by (cases "fill_result_column f s (priv_get_result df_result) target_col_name N")
    have "same_tables s s1" by (rule fill_result_column_same [OF f run])
    moreover have "s' = s1" using that(1) run by (cases r1) (simp_all split: if_splits)
    ultimately show ?thesis by simp
  qed
  from assms show ?thesis
    by (auto simp: evalMetrics_older_def Let_def same_tables_refl split: if_splits
        intro: scored on_cell_same)
qed

lemma reranked_metrics_same:
  assumes "reranked_metrics kind mt s metric_type df_result df_predict target_col_name tag N flag
             = (r, s')"
  shows "same_tables s s'"
proof -
  obtain r1 s1 where e: "priv_get_recommend_eval s (priv_get_result df_result) target_col_name tag N
      = (r1, s1)"
    by (cases "priv_get_recommend_eval s (priv_get_result df_result) target_col_name tag N")
  have "same_tables s s1" by (rule priv_get_recommend_eval_same [OF e])
  moreover have "s' = s1"
  proof (cases r1)
    case (Inl err)
    with assms e show ?thesis by (simp add: reranked_metrics_def)
  next
    case (Inr frame)
    show ?thesis
    proof (cases frame)
      case None
      with assms e Inr show ?thesis by (simp add: reranked_metrics_def)
    next
      case (Some rows)
      with assms e Inr show ?thesis
        by (simp add: reranked_metrics_def Let_def split: sum.splits if_splits)
    qed
  qed
  ultimately show ?thesis by simp
qed

text \<open>
  C9. Whatever a recommendation or evaluation call returns or raises, the engine it
  leaves differs from the engine it found in the two user dicts at most: the
  interaction matrix, the item dicts, \<open>top_purchases\<close>, \<open>overall_top_purchases\<close> and the
  two fitted models are the same.
\<close>

theorem calls_change_user_dicts_only:
  "same_tables s (snd (get_recommendations s uid N)) \<and>
   same_tables s (snd (get_own_recommendations s uid N)) \<and>
   same_tables s (snd (get_similar_items_recommendation s uid N)) \<and>
   same_tables s (snd (get_similar_users_recommendation s uid N)) \<and>
   same_tables s (snd (evalMetrics mt s metric_type df_result target_col_name tag N)) \<and>
   same_tables s (snd (evalMetrics_older mt s metric_type df_result target_col_name tag N)) \<and>
   same_tables s
     (snd (reranked_metrics kind mt s metric_type df_result df_predict target_col_name tag N flag))"
proof (intro conjI)
  show "same_tables s (snd (get_recommendations s uid N))"
    by (rule get_recommendations_same) (rule prod.collapse [symmetric])
  show "same_tables s (snd (get_own_recommendations s uid N))"
    by (rule get_own_recommendations_same) (rule prod.collapse [symmetric])
  show "same_tables s (snd (get_similar_items_recommendation s uid N))"
    using get_similar_items_recommendation_same [OF prod.collapse [symmetric]]
    by (simp add: same_tables_refl)
  show "same_tables s (snd (get_similar_users_recommendation s uid N))"
    by (rule get_similar_users_recommendation_same) (rule prod.collapse [symmetric])
  show "same_tables s (snd (evalMetrics mt s metric_type df_result target_col_name tag N))"
    by (rule evalMetrics_same) (rule prod.collapse [symmetric])
  show "same_tables s (snd (evalMetrics_older mt s metric_type df_result target_col_name tag N))"
    by (rule evalMetrics_older_same) (rule prod.collapse [symmetric])
  show "same_tables s
     (snd (reranked_metrics kind mt s metric_type df_result df_predict target_col_name tag N flag))"
    by (rule reranked_metrics_same) (rule prod.collapse [symmetric])
qed

text \<open>A call that registers a user: the user dicts grow, the tables stay.\<close>

theorem calls_change_user_dicts_only_demo:
  "same_tables demo_engine (snd (get_recommendations demo_engine 7 2)) \<and>
   userid_to_id (snd (get_recommendations demo_engine 7 2)) = [(1, 0), (2, 1), (7, 2)] \<and>
   id_to_userid (snd (get_recommendations demo_engine 7 2)) = [(0, 1), (1, 2), (2, 7)]"
proof -
  have "userid_to_id (snd (get_recommendations demo_engine 7 2)) = [(1, 0), (2, 1), (7, 2)]"
    and "id_to_userid (snd (get_recommendations demo_engine 7 2)) = [(0, 1), (1, 2), (2, 7)]"
    by code_simp+
  then show ?thesis
    using calls_change_user_dicts_only [of demo_engine 7 2] by simp
qed

section \<open>The engine of the small data set\<close>

text \<open>
  Whatever the sort kind does with equal counts, the constructor builds the same
  engine: the ties of the small data set involve the placeholder, which is filtered out.
\<close>

lemma demo_init:
  "init kind demo_library demo_data ''bm25'' ''als'' ''item-item'' ''binary'' = Inr demo_engine"
proof -
  have pairs: "sort (remdups (map (\<lambda>r. (user_id r, item_id r)) demo_data))
      = [(1, 10), (1, 999999), (2, 20), (2, 999999)]"
    by code_simp
  have items: "sort (remdups (map item_id demo_data)) = [10, 20, 999999]"
    by code_simp
  have per_user:
    "map (\<lambda>(u, i). (u, i, length (filter (\<lambda>r. user_id r = u \<and> item_id r = i) demo_data)))
       [(1, 10), (1, 999999), (2, 20), (2, 999999)]
     = [(1, 10, 2), (1, 999999, 1), (2, 20, 1), (2, 999999, 1)]"
    by code_simp
  have per_item:
    "map (\<lambda>i. (i, length (filter (\<lambda>r. item_id r = i) demo_data))) [10, 20, 999999]
     = [(10, 2), (20, 1), (999999, 2)]"
    by code_simp
  have top: "filter (\<lambda>(u, i, c). i \<noteq> 999999)
       (sort_values_desc kind (\<lambda>(u, i, c). int c)
          [(1 :: int, 10 :: int, 2 :: nat), (1, 999999, 1), (2, 20, 1), (2, 999999, 1)])
     = [(1, 10, 2), (2, 20, 1)]"
    by (subst filter_sort_values_desc) (simp_all add: inj_on_def)
  have overall: "filter (\<lambda>(i, c). i \<noteq> 999999)
       (sort_values_desc kind (\<lambda>(i, c). int c) [(10 :: int, 2 :: nat), (20, 1), (999999, 2)])
     = [(10, 2), (20, 1)]"
    by (subst filter_sort_values_desc) (simp_all add: inj_on_def)
  have frame: "priv_prepare_matrix demo_data ''binary''
     = Inr \<lparr>frame_index = [1, 2], frame_columns = [10, 20, 999999],
            frame_values = [[2, 0, 1], [0, 1, 1]]\<rparr>"
    by code_simp
  have tr: "transpose (transpose [[2, 0, 1], [0, 1, 1 :: rat]]) = [[2, 0, 1], [0, 1, 1]]"
    by code_simp
  show ?thesis
    unfolding init_def Let_def pairs items per_user per_item top overall frame
    by (simp add: priv_prepare_dicts_def demo_library_def fit_def fit_own_recommender_def
        demo_engine_def tr upt_rec)
qed


section \<open>The placeholder in the similar-items strategy\<close>

text \<open>
  C3 fails on the code. In the engine built from the small data set, the only purchase
  of user 2 outside the placeholder is item 20, and the second answer of
  \<open>similar_items\<close> for item 20 is the column of the placeholder:
  \<^verbatim>\<open>get_similar_items_recommendation(2, N=1)\<close> returns \<^verbatim>\<open>[999999]\<close>. The three other
  strategies pass \<^verbatim>\<open>filter_items=[self.itemid_to_id[999999]]\<close> to the model;
  \<^verbatim>\<open>_get_similar_item\<close> filters nothing.
\<close>

theorem similar_items_emits_placeholder:
  "init kind demo_library demo_data ''bm25'' ''als'' ''item-item'' ''binary'' = Inr demo_engine \<and>
   fst (get_similar_items_recommendation demo_engine 2 1) = Inr [999999] \<and>
   fst (get_recommendations demo_engine 2 1) = Inr [20] \<and>
   fst (get_own_recommendations demo_engine 2 1) = Inr [20] \<and>
   fst (get_similar_users_recommendation demo_engine 2 1) = Inr [20]"
proof (intro conjI)
  show "init kind demo_library demo_data ''bm25'' ''als'' ''item-item'' ''binary'' = Inr demo_engine"
    by (rule demo_init)
  show "fst (get_similar_items_recommendation demo_engine 2 1) = Inr [999999]"
    by code_simp
  show "fst (get_recommendations demo_engine 2 1) = Inr [20]"
    by code_simp
  show "fst (get_own_recommendations demo_engine 2 1) = Inr [20]"
    by code_simp
  show "fst (get_similar_users_recommendation demo_engine 2 1) = Inr [20]"
    by code_simp
qed

section \<open>Unknown tags in the evaluator\<close>

lemma get_recommend_eval_unknown:
  "tag \<notin> {''own'', ''rec'', ''itm'', ''usr''} \<Longrightarrow>
   priv_get_recommend_eval s result_eval target_col_name tag N = (Inr None, s)"
  by (simp add: priv_get_recommend_eval_def)

lemma evalMetrics_unknown_metric:
  assumes "metric_type \<notin> {''recall'', ''precision''}"
  shows "fst (evalMetrics mt s metric_type df_result target_col_name tag N) = Inr PyNone \<or>
         (\<exists>e. fst (evalMetrics mt s metric_type df_result target_col_name tag N) = Inl e)"
proof -
  obtain r1 s1 where e: "priv_get_recommend_eval s (priv_get_result df_result) target_col_name tag N
      = (r1, s1)"
    by (cases "priv_get_recommend_eval s (priv_get_result df_result) target_col_name tag N")
  show ?thesis
    using assms e by (cases r1) (simp_all add: evalMetrics_def)
qed

text \<open>
  C8 fails on \<^verbatim>\<open>src/src/recommenders.py\<close>. With a strategy tag that is none of the four,
  \<^verbatim>\<open>evalMetrics\<close> raises \<^verbatim>\<open>AttributeError\<close> for either metric and returns \<^verbatim>\<open>None\<close> for an
  unknown metric; with an unknown metric and a known strategy it returns \<^verbatim>\<open>None\<close> or
  raises what the strategy raised. The older \<^verbatim>\<open>src/recommenders.py\<close> returns its message
  for an unknown strategy tag.
\<close>

theorem evalMetrics_unknown_tags:
  assumes "tag \<notin> {''own'', ''rec'', ''itm'', ''usr''}"
  shows "evalMetrics mt s ''recall'' df_result target_col_name tag N = (Inl AttributeError, s) \<and>
         evalMetrics mt s ''precision'' df_result target_col_name tag N = (Inl AttributeError, s) \<and>
         (metric_type \<notin> {''recall'', ''precision''} \<longrightarrow>
            evalMetrics mt s metric_type df_result target_col_name tag N = (Inr PyNone, s) \<and>
            (fst (evalMetrics mt s metric_type df_result target_col_name tag' N) = Inr PyNone \<or>
             (\<exists>e. fst (evalMetrics mt s metric_type df_result target_col_name tag' N) = Inl e))) \<and>
         evalMetrics_older mt s metric_type df_result target_col_name tag N
           = (Inr (PyStr ''recommend_model_type must not be empty!''), s)"
proof (intro conjI impI)
  show "evalMetrics mt s ''recall'' df_result target_col_name tag N = (Inl AttributeError, s)"
    and "evalMetrics mt s ''precision'' df_result target_col_name tag N = (Inl AttributeError, s)"
    using assms by (simp_all add: evalMetrics_def get_recommend_eval_unknown)
  show "evalMetrics_older mt s metric_type df_result target_col_name tag N
           = (Inr (PyStr ''recommend_model_type must not be empty!''), s)"
    using assms by (simp add: evalMetrics_older_def Let_def)
next
  assume unknown: "metric_type \<notin> {''recall'', ''precision''}"
  show "evalMetrics mt s metric_type df_result target_col_name tag N = (Inr PyNone, s)"
    using assms unknown by (simp add: evalMetrics_def get_recommend_eval_unknown)
  show "fst (evalMetrics mt s metric_type df_result target_col_name tag' N) = Inr PyNone \<or>
        (\<exists>e. fst (evalMetrics mt s metric_type df_result target_col_name tag' N) = Inl e)"
    by (rule evalMetrics_unknown_metric [OF unknown])
qed

theorem evalMetrics_unknown_tags_demo:
  "evalMetrics demo_metrics demo_engine ''recall'' demo_data ''user_id'' ''xyz'' 2
     = (Inl AttributeError, demo_engine) \<and>
   evalMetrics demo_metrics demo_engine ''f1'' demo_data ''user_id'' ''xyz'' 2
     = (Inr PyNone, demo_engine) \<and>
   fst (evalMetrics demo_metrics demo_engine ''f1'' demo_data ''user_id'' ''own'' 2) = Inr PyNone \<and>
   evalMetrics_older demo_metrics demo_engine ''recall'' demo_data ''user_id'' ''xyz'' 2
     = (Inr (PyStr ''recommend_model_type must not be empty!''), demo_engine)"
proof -
  have tag: "''xyz'' \<notin> {''own'', ''rec'', ''itm'', ''usr''}"
    and metric: "''f1'' \<notin> {''recall'', ''precision''}"
    by simp_all
  have own: "fst (evalMetrics demo_metrics demo_engine ''f1'' demo_data ''user_id'' ''own'' 2)
      = Inr PyNone"
    by code_simp
  show ?thesis
    using evalMetrics_unknown_tags [OF tag, where mt = demo_metrics and s = demo_engine
        and df_result = demo_data and target_col_name = "''user_id''" and N = 2
        and metric_type = "''f1''" and tag' = "''own''"]
      evalMetrics_unknown_tags [OF tag, where mt = demo_metrics and s = demo_engine
        and df_result = demo_data and target_col_name = "''user_id''" and N = 2
        and metric_type = "''recall''" and tag' = "''own''"] metric own
    by simp
qed

section \<open>The similar-items strategy and its source items\<close>

lemma collect_nth:
  "collect f xs = Inr ys \<Longrightarrow>
   length ys = length xs \<and> (\<forall>k < length xs. f (xs ! k) = Inr (ys ! k))"
proof (induction xs arbitrary: ys)
  case Nil
  then show ?case by simp
next
  case (Cons x xs)
  from Cons.prems obtain y ys' where y: "f x = Inr y" and ys': "collect f xs = Inr ys'"
    and ys: "ys = y # ys'"
    by (auto split: sum.splits)
  from Cons.IH [OF ys'] show ?case
    by (auto simp: ys y nth_Cons split: nat.splits)
qed

lemma extend_prefix:
  "take (length raw) (priv_extend_with_top_popular s raw N) = raw"
  by (cases "int (length raw) < N") (simp_all add: extend_short extend_long)

lemma prepare_dicts_inverse:
  assumes "priv_prepare_dicts frame = (id_to_itemid', id_to_userid', itemid_to_id', userid_to_id')"
    and "distinct (frame_columns frame)"
    and "map_of id_to_itemid' idx = Some i"
  shows "map_of itemid_to_id' i = Some idx"
proof -
  let ?items = "frame_columns frame"
  let ?ids = "map int [0..<length ?items]"
  from assms(1) have a: "id_to_itemid' = zip ?ids ?items" and c: "itemid_to_id' = zip ?items ?ids"
    by (simp_all add: priv_prepare_dicts_def Let_def)
  from assms(3) have "(idx, i) \<in> set (zip ?ids ?items)"
    unfolding a by (rule map_of_SomeD)
  then obtain k where k: "k < length ?items" "?ids ! k = idx" "?items ! k = i"
    by (auto simp: in_set_zip)
  have "map_of (zip ?items ?ids) (?items ! k) = Some (?ids ! k)"
    using assms(2) k(1) by (intro map_of_zip_nth) simp_all
  then show ?thesis by (simp add: c k)
qed

lemma prepare_matrix_columns_distinct:
  "priv_prepare_matrix data mode = Inr frame \<Longrightarrow> distinct (frame_columns frame)"
  by (auto simp: priv_prepare_matrix_def pivot_table_def Let_def split: if_splits)

lemma similar_item_differs:
  assumes m: "model s = Some m"
    and contract: "\<And>idx recs. similar_items m idx 2 = Inr recs \<Longrightarrow> recs \<noteq> [] \<Longrightarrow>
                     fst (hd recs) = idx \<and> distinct (map fst recs)"
    and inverse: "\<And>idx i. map_of (id_to_itemid s) idx = Some i \<Longrightarrow>
                     map_of (itemid_to_id s) i = Some idx"
    and run: "priv_get_similar_item s item = Inr y"
  shows "y \<noteq> item"
proof
  assume same: "y = item"
  from run m obtain idx recs where idx: "map_of (itemid_to_id s) item = Some idx"
    and recs: "similar_items m idx 2 = Inr recs" and two: "2 \<le> length recs"
    and y: "map_of (id_to_itemid s) (fst (recs ! 1)) = Some y"
    by (auto simp: priv_get_similar_item_def getitem_def split: option.splits sum.splits if_splits)
  from two have ne: "recs \<noteq> []" by auto
  from contract [OF recs ne] have first: "fst (hd recs) = idx" and d: "distinct (map fst recs)"
    by simp_all
  have l1: "1 < length recs"
    using two by linarith
  then have l0: "0 < length recs"
    by linarith
  have "fst (recs ! 1) \<noteq> fst (recs ! 0)"
  proof
    assume "fst (recs ! 1) = fst (recs ! 0)"
    then have "map fst recs ! 1 = map fst recs ! 0"
      by (simp only: nth_map [OF l0] nth_map [OF l1])
    moreover have "1 < length (map fst recs)" "0 < length (map fst recs)"
      using l0 l1 by (simp_all only: length_map)
    ultimately have "(1::nat) = 0" using d by (simp only: nth_eq_iff_index_eq)
    then show False by simp
  qed
  then have "fst (recs ! 1) \<noteq> idx"
    using first ne by (simp add: hd_conv_nth)
  moreover from inverse [OF y] idx same have "fst (recs ! 1) = idx" by simp
  ultimately show False by contradiction
qed

text \<open>Every engine that the constructor builds has item dicts that invert each other.\<close>

lemma init_item_dicts_inverse:
  assumes built: "init kind lib data weighting model_type own_recommender_type mode = Inr s"
    and entry: "map_of (id_to_itemid s) idx = Some i"
  shows "map_of (itemid_to_id s) i = Some idx"
proof -
  from built obtain frame where frame: "priv_prepare_matrix data mode = Inr frame"
    by (cases "priv_prepare_matrix data mode") (simp_all add: init_def Let_def)
  obtain a b c d where dicts: "priv_prepare_dicts frame = (a, b, c, d)"
    by (cases "priv_prepare_dicts frame")
  from built have "id_to_itemid s = a \<and> itemid_to_id s = c"
    by (auto simp: init_def Let_def frame dicts split: sum.splits)
  with entry have "map_of a idx = Some i" and c: "itemid_to_id s = c" by simp_all
  with prepare_dicts_inverse [OF dicts prepare_matrix_columns_distinct [OF frame]]
  show ?thesis by simp
qed

text \<open>
  C7. Let the model answer a similarity query with a ranking without repetitions whose
  first entry is the query, and let \<open>id_to_itemid\<close> be inverted by \<open>itemid_to_id\<close> (as
  \<^verbatim>\<open>_prepare_dicts\<close> builds them). Then \<^verbatim>\<open>_get_similar_item\<close> never returns its argument,
  and in a list that \<^verbatim>\<open>get_similar_items_recommendation\<close> returns, the entry at the
  position of each of the user's top purchases differs from that purchase.
\<close>

theorem similar_items_never_the_source:
  assumes m: "model s = Some m"
    and contract: "\<And>idx recs. similar_items m idx 2 = Inr recs \<Longrightarrow> recs \<noteq> [] \<Longrightarrow>
                     fst (hd recs) = idx \<and> distinct (map fst recs)"
    and inverse: "\<And>idx i. map_of (id_to_itemid s) idx = Some i \<Longrightarrow>
                     map_of (itemid_to_id s) i = Some idx"
  shows "(priv_get_similar_item s item = Inr y \<longrightarrow> y \<noteq> item) \<and>
         (get_similar_items_recommendation s uid N = (Inr res, s') \<longrightarrow>
            length (take (nat N) (filter (\<lambda>(u, i, c). u = uid) (top_purchases s))) \<le> length res \<and>
            (\<forall>k < length (take (nat N) (filter (\<lambda>(u, i, c). u = uid) (top_purchases s))).
               res ! k \<noteq>
               map (\<lambda>(u, i, c). i)
                 (take (nat N) (filter (\<lambda>(u, i, c). u = uid) (top_purchases s))) ! k))"
proof (intro conjI impI)
  assume one: "priv_get_similar_item s item = Inr y"
  show "y \<noteq> item"
    by (rule similar_item_differs [of s m item y])
      (fact m | rule contract inverse one | assumption)+
next
  let ?rows = "filter (\<lambda>(u, i, c). u = uid) (top_purchases s)"
  assume run: "get_similar_items_recommendation s uid N = (Inr res, s')"
  then obtain raw where raw: "collect (priv_get_similar_item s) (map (\<lambda>(u, i, c). i) (head N ?rows))
      = Inr raw"
    and res: "res = priv_extend_with_top_popular s raw N" and len: "int (length res) = N"
    by (auto simp: get_similar_items_recommendation_def Let_def split: sum.splits if_splits)
  from len have "0 \<le> N" by simp
  then have hd: "head N ?rows = take (nat N) ?rows" by (simp add: head_def)
  let ?sources = "map (\<lambda>(u, i, c). i) (take (nat N) ?rows)"
  from collect_nth [OF raw] have rawlen: "length raw = length ?sources"
    and each: "\<And>k. k < length ?sources \<Longrightarrow> priv_get_similar_item s (?sources ! k) = Inr (raw ! k)"
    by (simp_all add: hd)
  have prefix: "take (length raw) res = raw"
    by (simp add: res extend_prefix)
  then have "length raw \<le> length res"
    by (metis length_take min.cobounded1)
  then show "length (take (nat N) ?rows) \<le> length res"
    using rawlen by simp
  show "\<forall>k < length (take (nat N) ?rows). res ! k \<noteq> ?sources ! k"
  proof (intro allI impI)
    fix k assume k: "k < length (take (nat N) ?rows)"
    then have k': "k < length ?sources" by simp
    have "res ! k = take (length raw) res ! k"
      using k' rawlen by simp
    then have "res ! k = raw ! k" by (simp add: prefix)
    moreover have "raw ! k \<noteq> ?sources ! k"
      by (rule similar_item_differs [of s m "?sources ! k" "raw ! k"])
        (fact m | rule contract inverse each [OF k'] | assumption)+
    ultimately show "res ! k \<noteq> ?sources ! k" by simp
  qed
qed

text \<open>
  User 1 of the small data set bought item 10: the strategy answers item 20 for it, and
  the fallback then appends item 10 itself from \<open>overall_top_purchases\<close>.
\<close>

theorem similar_items_never_the_source_demo:
  "get_similar_items_recommendation demo_engine 1 2 = (Inr [20, 10], demo_engine) \<and>
   map (\<lambda>(u, i, c). i) (take (nat 2) (filter (\<lambda>(u, i, c). u = 1) (top_purchases demo_engine))) = [10] \<and>
   [20, 10 :: int] ! 0 \<noteq> [10] ! 0 \<and>
   priv_get_similar_item demo_engine 10 = Inr 20"
proof -
  have m: "model demo_engine = Some demo_model"
    by (simp add: demo_engine_def)
  have contract: "fst (hd recs) = idx \<and> distinct (map fst recs)"
    if "similar_items demo_model idx 2 = Inr recs" "recs \<noteq> []" for idx recs
    using that by (auto simp: demo_model_def numeral_2_eq_2)
  have inverse: "map_of (itemid_to_id demo_engine) i = Some idx"
    if "map_of (id_to_itemid demo_engine) idx = Some i" for idx i
    using that by (auto simp: demo_engine_def split: if_splits)
  have item: "priv_get_similar_item demo_engine 10 = Inr 20"
    by code_simp
  have "fst (get_similar_items_recommendation demo_engine 1 2) = Inr [20, 10]"
    by code_simp
  moreover have "snd (get_similar_items_recommendation demo_engine 1 2) = demo_engine"
    by (simp add: get_similar_items_recommendation_def Let_def split: sum.splits)
  ultimately have run: "get_similar_items_recommendation demo_engine 1 2 = (Inr [20, 10], demo_engine)"
    by (metis prod.collapse)
  have sources: "map (\<lambda>(u, i, c). i)
      (take (nat 2) (filter (\<lambda>(u, i, c). u = 1) (top_purchases demo_engine))) = [10]"
    by (simp add: demo_engine_def)
  from similar_items_never_the_source [OF m contract inverse, of 10 20 1 2 "[20, 10]" demo_engine]
    run item sources
  show ?thesis by simp
qed

section \<open>Exactly N recommendations\<close>

































end
